theory Spec2Isabelle
  imports Main
begin

section \<open>Data model\<close>

text \<open>
  The embedding follows \<^verbatim>\<open>src/lib/job-runner.ts\<close> (class \<^verbatim>\<open>JobRunner\<close>) and the zod
  schemas of \<^verbatim>\<open>src/lib/schemas.ts\<close>. The database behind \<^verbatim>\<open>prisma\<close> is an explicit
  store: one list of rows per table, in insertion order. Primary keys are natural
  numbers drawn from a counter (the source uses generated string ids; only their
  freshness matters). JS numbers that hold integers are \<open>int\<close>.
\<close>

type_synonym ident = nat

datatype job_status = Queued | Running | Succeeded | Failed

datatype event_level = Info | Warn | Error

datatype lesson_type = Learn | Practice | Apply

datatype question_type = Mcq | Short | Code

datatype difficulty = Easy | Medium | Hard

text \<open>A thrown JS value: the runner reads \<^verbatim>\<open>error.code\<close>, \<^verbatim>\<open>error.message\<close> and
  \<^verbatim>\<open>error.stack\<close>, each of which may be undefined.\<close>

record js_error =
  err_code :: "string option"
  err_message :: "string option"
  err_stack :: "string option"

text \<open>Values of the structured payload of an event. The source stores
  \<^verbatim>\<open>JSON.stringify(data)\<close>; the model keeps the object itself.\<close>

datatype jval = JNum int | JStr string | JUndefined

type_synonym payload = "(string \<times> jval) list"

record job =
  j_id :: ident
  j_type :: string
  j_status :: job_status
  j_progressPercent :: int
  j_currentStage :: string
  j_errorCode :: "string option"
  j_errorMessage :: "string option"
  j_courseId :: "ident option"
  j_createdAt :: nat
  j_updatedAt :: nat

record job_event =
  ev_jobId :: ident
  ev_stage :: string
  ev_level :: event_level
  ev_message :: string
  ev_data :: "payload option"

record course =
  c_id :: ident
  c_topic :: string
  c_level :: string
  c_timePerDay :: int
  c_status :: string

record module_row =
  m_id :: ident
  m_courseId :: ident
  m_order :: int
  m_title :: string
  m_description :: string
  m_outcomes :: "string list"

record lesson_row =
  l_moduleId :: ident
  l_order :: int
  l_title :: string
  l_type :: lesson_type
  l_estimatedMinutes :: int
  l_content :: "string option"

record quiz_row =
  q_id :: ident
  q_moduleId :: ident
  q_totalQuestions :: int

record question_row =
  qq_quizId :: ident
  qq_type :: question_type
  qq_question :: string
  qq_options :: "string list option"
  qq_answerKey :: string
  qq_explanation :: string
  qq_difficulty :: difficulty
  qq_tags :: "string list"
  qq_order :: int

record resource_row =
  r_moduleId :: ident
  r_provider :: string
  r_title :: string
  r_url :: string
  r_channel :: "string option"
  r_durationSeconds :: "int option"
  r_thumbnailUrl :: "string option"
  r_reason :: "string option"
  r_order :: int

subsection \<open>Provider results (the zod-inferred types of schemas.ts)\<close>

record skeleton_module =
  sm_order :: int
  sm_title :: string
  sm_description :: string
  sm_outcomes :: "string list"

record course_skeleton =
  sk_topic :: string
  sk_level :: string
  sk_modules :: "skeleton_module list"

record lesson_step =
  ls_order :: int
  ls_title :: string
  ls_type :: lesson_type
  ls_estimatedMinutes :: int
  ls_content :: "string option"

record module_lessons =
  ml_moduleOrder :: int
  ml_steps :: "lesson_step list"

record quiz_question =
  qn_type :: question_type
  qn_question :: string
  qn_options :: "string list option"
  qn_answerKey :: string
  qn_explanation :: string
  qn_difficulty :: difficulty
  qn_tags :: "string list"

record module_quiz =
  mq_moduleOrder :: int
  mq_questions :: "quiz_question list"

record youtube_resource =
  yt_title :: string
  yt_url :: string
  yt_channel :: "string option"
  yt_durationSeconds :: "int option"
  yt_thumbnailUrl :: "string option"
  yt_reason :: "string option"

subsection \<open>Provider calls\<close>

record skeleton_args =
  sa_topic :: string
  sa_level :: string
  sa_timePerDay :: int

record lessons_args =
  la_topic :: string
  la_module :: skeleton_module
  la_timePerDay :: int

record quiz_args =
  qa_topic :: string
  qa_order :: int
  qa_title :: string
  qa_description :: string

text \<open>Every call made to a provider is recorded, with its arguments, in the
  order the runner makes them. The log is not part of the source's database; it is
  the observable trace of the runner's outgoing calls.\<close>

datatype provider_call =
    SkeletonCall skeleton_args
  | LessonsCall lessons_args
  | QuizCall quiz_args
  | VideoCall string int

text \<open>
  Providers are external services: the same arguments may fail once and succeed
  the next time. A provider method therefore takes, besides its arguments, the
  number of provider calls the process has made before this one. A thrown
  exception is \<open>Inl\<close>.
\<close>

record llm_provider =
  generateCourseSkeleton :: "nat \<Rightarrow> skeleton_args \<Rightarrow> js_error + course_skeleton"
  generateLessons :: "nat \<Rightarrow> lessons_args \<Rightarrow> js_error + module_lessons"
  generateQuiz :: "nat \<Rightarrow> quiz_args \<Rightarrow> js_error + module_quiz"

record youtube_provider =
  searchVideos :: "nat \<Rightarrow> string \<Rightarrow> int \<Rightarrow> js_error + youtube_resource list"

text \<open>The process environment: which API keys are configured, and the two
  implementations of each provider.\<close>

record env =
  hasOpenAIKey :: bool
  openAIProvider :: llm_provider
  mockLLMProvider :: llm_provider
  hasYouTubeKey :: bool
  youTubeDataApiProvider :: youtube_provider
  mockYouTubeProvider :: youtube_provider

text \<open>Modelled from the spec: \<^verbatim>\<open>createLLMProvider\<close> and \<^verbatim>\<open>createYouTubeProvider\<close> live in
  \<^verbatim>\<open>src/lib/providers/\<close>, which is not among the sources. The spec has each provider
  "selected by configuration presence"; the runner's own comment on its second call
  of the factory reads "Will use mock if no key". The factories take no argument.\<close>

definition createLLMProvider :: "env \<Rightarrow> llm_provider" where
  "createLLMProvider e = (if hasOpenAIKey e then openAIProvider e else mockLLMProvider e)"

definition createYouTubeProvider :: "env \<Rightarrow> youtube_provider" where
  "createYouTubeProvider e =
     (if hasYouTubeKey e then youTubeDataApiProvider e else mockYouTubeProvider e)"

subsection \<open>The store\<close>

text \<open>\<open>progressLog\<close> records every write of \<^verbatim>\<open>progressPercent\<close> to a job row
  (job id, percent, stage label), in order; the row itself only keeps the last one.
  \<open>clock\<close> is what \<^verbatim>\<open>new Date()\<close> reads.\<close>

record store =
  jobs :: "job list"
  courses :: "course list"
  modules :: "module_row list"
  lessons :: "lesson_row list"
  quizzes :: "quiz_row list"
  questions :: "question_row list"
  resources :: "resource_row list"
  events :: "job_event list"
  nextId :: ident
  clock :: nat
  calls :: "provider_call list"
  progressLog :: "(ident \<times> int \<times> string) list"

section \<open>Schemas (schemas.ts)\<close>







section \<open>Helpers of the runner\<close>

text \<open>Decimal rendering of an integer, as a template literal renders a JS number
  holding one.\<close>

fun showNat :: "nat \<Rightarrow> string" where
  "showNat n = (if n < 10 then [''0123456789'' ! n] else showNat (n div 10) @ [''0123456789'' ! (n mod 10)])"

declare showNat.simps [simp del]

definition showInt :: "int \<Rightarrow> string" where
  "showInt i = (if i < 0 then ''-'' @ showNat (nat (- i)) else showNat (nat i))"

text \<open>\<^verbatim>\<open>x || d\<close> on an optional string: undefined and the empty string are falsy.\<close>

definition orElse :: "string option \<Rightarrow> string \<Rightarrow> string" where
  "orElse x d = (case x of None \<Rightarrow> d | Some v \<Rightarrow> if v = [] then d else v)"

definition jstr :: "string option \<Rightarrow> jval" where
  "jstr x = (case x of None \<Rightarrow> JUndefined | Some v \<Rightarrow> JStr v)"

definition JOB_RUNNER_FAILURE :: string where
  "JOB_RUNNER_FAILURE = ''JOB_RUNNER_FAILURE''"

definition YOUTUBE_PROVIDER_FAILURE :: string where
  "YOUTUBE_PROVIDER_FAILURE = ''YOUTUBE_PROVIDER_FAILURE''"

text \<open>\<^verbatim>\<open>prisma.job.update({ where: { id }, data })\<close>. At every call site the row
  has just been read, so Prisma's record-not-found error does not arise.\<close>

definition updateJob :: "ident \<Rightarrow> (job \<Rightarrow> job) \<Rightarrow> store \<Rightarrow> store" where
  "updateJob i f s = s\<lparr>jobs := map (\<lambda>j. if j_id j = i then f j else j) (jobs s)\<rparr>"

definition updateProgress :: "ident \<Rightarrow> int \<Rightarrow> string \<Rightarrow> store \<Rightarrow> store" where
  "updateProgress jobId percent stage s =
     (updateJob jobId (\<lambda>j. j\<lparr>j_progressPercent := percent, j_currentStage := stage,
                               j_updatedAt := clock s\<rparr>) s)
       \<lparr>clock := Suc (clock s), progressLog := progressLog s @ [(jobId, percent, stage)]\<rparr>"

definition logEvent :: "ident \<Rightarrow> string \<Rightarrow> event_level \<Rightarrow> string \<Rightarrow> payload option \<Rightarrow> store \<Rightarrow> store" where
  "logEvent jobId stage lvl msg dat s =
     s\<lparr>events := events s @
          [\<lparr>ev_jobId = jobId, ev_stage = stage, ev_level = lvl, ev_message = msg, ev_data = dat\<rparr>]\<rparr>"

text \<open>A provider call: the provider sees how many calls came before, and the call is
  logged.\<close>

definition callSkeleton :: "llm_provider \<Rightarrow> skeleton_args \<Rightarrow> store \<Rightarrow> (js_error + course_skeleton) \<times> store" where
  "callSkeleton p a s =
     (generateCourseSkeleton p (length (calls s)) a, s\<lparr>calls := calls s @ [SkeletonCall a]\<rparr>)"

definition callLessons :: "llm_provider \<Rightarrow> lessons_args \<Rightarrow> store \<Rightarrow> (js_error + module_lessons) \<times> store" where
  "callLessons p a s =
     (generateLessons p (length (calls s)) a, s\<lparr>calls := calls s @ [LessonsCall a]\<rparr>)"

definition callQuiz :: "llm_provider \<Rightarrow> quiz_args \<Rightarrow> store \<Rightarrow> (js_error + module_quiz) \<times> store" where
  "callQuiz p a s =
     (generateQuiz p (length (calls s)) a, s\<lparr>calls := calls s @ [QuizCall a]\<rparr>)"

definition callVideos :: "youtube_provider \<Rightarrow> string \<Rightarrow> int \<Rightarrow> store \<Rightarrow> (js_error + youtube_resource list) \<times> store" where
  "callVideos p q n s =
     (searchVideos p (length (calls s)) q n, s\<lparr>calls := calls s @ [VideoCall q n]\<rparr>)"

section \<open>Stage 1: course skeleton\<close>

definition skeletonArgs :: "course \<Rightarrow> skeleton_args" where
  "skeletonArgs c = \<lparr>sa_topic = c_topic c, sa_level = c_level c, sa_timePerDay = c_timePerDay c\<rparr>"

text \<open>Lines 121 to 160 of job-runner.ts: the first attempt, the retry with the same
  provider and inputs, and the third attempt through a second call of the factory.
  The result is the skeleton, or the exception of the third attempt.\<close>

definition stage1 :: "env \<Rightarrow> ident \<Rightarrow> course \<Rightarrow> store \<Rightarrow> (js_error \<times> store) + (course_skeleton \<times> store)" where
  "stage1 e jobId c s0 =
     (let llmProvider = createLLMProvider e;
          s1 = updateProgress jobId 10 ''Stage 1: Generating course skeleton'' s0;
          s2 = logEvent jobId ''Stage 1'' Info ''Starting course skeleton generation'' None s1
      in case callSkeleton llmProvider (skeletonArgs c) s2 of
           (Inr skeleton, s3) \<Rightarrow>
             Inr (skeleton,
                  logEvent jobId ''Stage 1'' Info ''Course skeleton generated''
                    (Some [(''modules'', JNum (int (length (sk_modules skeleton))))]) s3)
         | (Inl error, s3) \<Rightarrow>
             (let s4 = logEvent jobId ''Stage 1'' Warn ''LLM failed, attempting repair''
                         (Some [(''error'', jstr (err_message error))]) s3;
                  s5 = updateProgress jobId 12 ''Stage 1: Retrying with repair'' s4
              in case callSkeleton llmProvider (skeletonArgs c) s5 of
                   (Inr skeleton, s6) \<Rightarrow>
                     Inr (skeleton, logEvent jobId ''Stage 1'' Info ''Repair succeeded'' None s6)
                 | (Inl retryError, s6) \<Rightarrow>
                     (let s7 = logEvent jobId ''Stage 1'' Warn ''Using fallback generator'' None s6;
                          mockProvider = createLLMProvider e
                      in case callSkeleton mockProvider (skeletonArgs c) s7 of
                           (Inr skeleton, s8) \<Rightarrow> Inr (skeleton, s8)
                         | (Inl err, s8) \<Rightarrow> Inl (err, s8))))"

text \<open>\<^verbatim>\<open>prisma.module.create\<close> for one module of the skeleton: the \<^verbatim>\<open>data\<close> object
  with the generated id, and the insertion. \<^verbatim>\<open>outcomes\<close> is stored as JSON text and
  parsed back in stage 2; the model keeps the list.\<close>

definition moduleRow :: "ident \<Rightarrow> course \<Rightarrow> skeleton_module \<Rightarrow> module_row" where
  "moduleRow i c md =
     \<lparr>m_id = i, m_courseId = c_id c, m_order = sm_order md, m_title = sm_title md,
      m_description = sm_description md, m_outcomes = sm_outcomes md\<rparr>"

definition createModule :: "course \<Rightarrow> skeleton_module \<Rightarrow> store \<Rightarrow> store" where
  "createModule c md s =
     s\<lparr>modules := modules s @ [moduleRow (nextId s) c md], nextId := Suc (nextId s)\<rparr>"

text \<open>\<^verbatim>\<open>prisma.module.findMany({ where: { courseId }, orderBy: { order: 'asc' } })\<close>.
  Rows of equal order come in insertion order here; the database leaves that open.\<close>

definition findModules :: "ident \<Rightarrow> store \<Rightarrow> module_row list" where
  "findModules cid s = sort_key m_order (filter (\<lambda>m. m_courseId m = cid) (modules s))"

section \<open>Stage 2: lessons per module\<close>

definition lessonsArgs :: "course \<Rightarrow> module_row \<Rightarrow> lessons_args" where
  "lessonsArgs c m =
     \<lparr>la_topic = c_topic c,
      la_module = \<lparr>sm_order = m_order m, sm_title = m_title m, sm_description = m_description m,
                    sm_outcomes = m_outcomes m\<rparr>,
      la_timePerDay = c_timePerDay c\<rparr>"

definition lessonRow :: "module_row \<Rightarrow> lesson_step \<Rightarrow> lesson_row" where
  "lessonRow m lesson =
     \<lparr>l_moduleId = m_id m, l_order = ls_order lesson, l_title = ls_title lesson,
      l_type = ls_type lesson, l_estimatedMinutes = ls_estimatedMinutes lesson,
      l_content = Some (orElse (ls_content lesson) [])\<rparr>"

definition createLesson :: "module_row \<Rightarrow> lesson_step \<Rightarrow> store \<Rightarrow> store" where
  "createLesson m lesson s = s\<lparr>lessons := lessons s @ [lessonRow m lesson]\<rparr>"

text \<open>The body of the fallback loop \<^verbatim>\<open>for (let j = 1; j <= 4; j++)\<close>. The row is
  created without a content field. \<^verbatim>\<open>Math.floor(course.timePerDay / 4)\<close> is
  \<open>div\<close>, which rounds down on \<open>int\<close> as well.\<close>

definition fallbackLessonRow :: "course \<Rightarrow> module_row \<Rightarrow> int \<Rightarrow> lesson_row" where
  "fallbackLessonRow c m j =
     \<lparr>l_moduleId = m_id m, l_order = j,
      l_title = m_title m @ '' - Part '' @ showInt j,
      l_type = (if j = 4 then Apply else if j mod 2 = 0 then Practice else Learn),
      l_estimatedMinutes = c_timePerDay c div 4,
      l_content = None\<rparr>"

definition createFallbackLesson :: "course \<Rightarrow> module_row \<Rightarrow> int \<Rightarrow> store \<Rightarrow> store" where
  "createFallbackLesson c m j s = s\<lparr>lessons := lessons s @ [fallbackLessonRow c m j]\<rparr>"

text \<open>One iteration of the stage 2 loop for module number \<open>i\<close> (from 0) of \<open>n\<close>.
  \<^verbatim>\<open>Math.floor(25 + ((i + 1) / n) * 15)\<close> is computed in doubles by the source;
  it equals the exact \<open>25 + ((i + 1) * 15) div n\<close> for every \<open>n\<close> up to 2000 and
  \<open>i < n\<close>.\<close>

definition lessonsBody :: "llm_provider \<Rightarrow> ident \<Rightarrow> course \<Rightarrow> nat \<Rightarrow> nat \<Rightarrow> module_row \<Rightarrow> store \<Rightarrow> store" where
  "lessonsBody llmProvider jobId c n i m s0 =
     (let progress = 25 + ((int i + 1) * 15) div int n;
          s1 = updateProgress jobId progress
                 (''Stage 2: Module '' @ showInt (m_order m) @ '' lessons'') s0
      in case callLessons llmProvider (lessonsArgs c m) s1 of
           (Inr ls, s2) \<Rightarrow>
             logEvent jobId ''Stage 2'' Info
               (''Module '' @ showInt (m_order m) @ '' lessons created'')
               (Some [(''count'', JNum (int (length (ml_steps ls))))])
               (fold (createLesson m) (ml_steps ls) s2)
         | (Inl error, s2) \<Rightarrow>
             fold (createFallbackLesson c m) [1, 2, 3, 4]
               (logEvent jobId ''Stage 2'' Warn
                  (''Module '' @ showInt (m_order m) @ '' lessons failed, using fallback'')
                  (Some [(''error'', jstr (err_message error))]) s2))"

fun lessonsLoop :: "llm_provider \<Rightarrow> ident \<Rightarrow> course \<Rightarrow> nat \<Rightarrow> nat \<Rightarrow> module_row list \<Rightarrow> store \<Rightarrow> store" where
  "lessonsLoop p jobId c n i [] s = s"
| "lessonsLoop p jobId c n i (m # ms) s =
     lessonsLoop p jobId c n (Suc i) ms (lessonsBody p jobId c n i m s)"

definition stage2 :: "llm_provider \<Rightarrow> ident \<Rightarrow> course \<Rightarrow> module_row list \<Rightarrow> store \<Rightarrow> store" where
  "stage2 p jobId c ms s0 =
     (let s1 = updateProgress jobId 25 ''Stage 2: Generating lessons'' s0;
          s2 = logEvent jobId ''Stage 2'' Info ''Starting lesson generation for all modules'' None s1;
          s3 = lessonsLoop p jobId c (length ms) 0 ms s2
      in updateProgress jobId 40 ''Stage 2: Complete'' s3)"

section \<open>Stage 3: one quiz per module\<close>

definition quizArgs :: "course \<Rightarrow> module_row \<Rightarrow> quiz_args" where
  "quizArgs c m =
     \<lparr>qa_topic = c_topic c, qa_order = m_order m, qa_title = m_title m,
      qa_description = m_description m\<rparr>"

text \<open>\<^verbatim>\<open>prisma.quiz.create\<close>; the new row's id is what the source reads back as
  \<^verbatim>\<open>quiz.id\<close>.\<close>

definition createQuiz :: "module_row \<Rightarrow> int \<Rightarrow> store \<Rightarrow> ident \<times> store" where
  "createQuiz m totalQuestions s =
     (nextId s,
      s\<lparr>quizzes := quizzes s @ [\<lparr>q_id = nextId s, q_moduleId = m_id m, q_totalQuestions = totalQuestions\<rparr>],
        nextId := Suc (nextId s)\<rparr>)"

text \<open>The question at index \<open>j\<close> (from 0) of the provider's quiz.\<close>

definition questionRow :: "ident \<Rightarrow> nat \<times> quiz_question \<Rightarrow> question_row" where
  "questionRow quizId jq =
     (case jq of (j, q) \<Rightarrow>
        \<lparr>qq_quizId = quizId, qq_type = qn_type q, qq_question = qn_question q,
         qq_options = qn_options q, qq_answerKey = qn_answerKey q,
         qq_explanation = qn_explanation q, qq_difficulty = qn_difficulty q,
         qq_tags = qn_tags q, qq_order = int j + 1\<rparr>)"

definition createQuestion :: "ident \<Rightarrow> nat \<times> quiz_question \<Rightarrow> store \<Rightarrow> store" where
  "createQuestion quizId jq s = s\<lparr>questions := questions s @ [questionRow quizId jq]\<rparr>"

text \<open>The body of the fallback loop \<^verbatim>\<open>for (let j = 1; j <= 3; j++)\<close>.\<close>

definition fallbackQuestionRow :: "ident \<Rightarrow> module_row \<Rightarrow> int \<Rightarrow> question_row" where
  "fallbackQuestionRow quizId m j =
     \<lparr>qq_quizId = quizId, qq_type = Mcq,
      qq_question = ''Question '' @ showInt j @ '' about '' @ m_title m @ ''?'',
      qq_options = Some [''Option A'', ''Option B'', ''Option C'', ''Option D''],
      qq_answerKey = ''Option A'',
      qq_explanation = ''Explanation for this question.'',
      qq_difficulty = Medium, qq_tags = [], qq_order = j\<rparr>"

definition createFallbackQuestion :: "ident \<Rightarrow> module_row \<Rightarrow> int \<Rightarrow> store \<Rightarrow> store" where
  "createFallbackQuestion quizId m j s =
     s\<lparr>questions := questions s @ [fallbackQuestionRow quizId m j]\<rparr>"

definition quizBody :: "llm_provider \<Rightarrow> ident \<Rightarrow> course \<Rightarrow> nat \<Rightarrow> nat \<Rightarrow> module_row \<Rightarrow> store \<Rightarrow> store" where
  "quizBody llmProvider jobId c n i m s0 =
     (let progress = 45 + ((int i + 1) * 25) div int n;
          s1 = updateProgress jobId progress
                 (''Stage 3: Module '' @ showInt (m_order m) @ '' quiz'') s0
      in case callQuiz llmProvider (quizArgs c m) s1 of
           (Inr quizData, s2) \<Rightarrow>
             (case createQuiz m (int (length (mq_questions quizData))) s2 of
                (quizId, s3) \<Rightarrow>
                  logEvent jobId ''Stage 3'' Info
                    (''Module '' @ showInt (m_order m) @ '' quiz created'')
                    (Some [(''questions'', JNum (int (length (mq_questions quizData))))])
                    (fold (createQuestion quizId) (enumerate 0 (mq_questions quizData)) s3))
         | (Inl error, s2) \<Rightarrow>
             (case createQuiz m 3
                     (logEvent jobId ''Stage 3'' Warn
                        (''Module '' @ showInt (m_order m) @ '' quiz failed, using fallback'')
                        (Some [(''error'', jstr (err_message error))]) s2) of
                (quizId, s3) \<Rightarrow> fold (createFallbackQuestion quizId m) [1, 2, 3] s3))"

fun quizLoop :: "llm_provider \<Rightarrow> ident \<Rightarrow> course \<Rightarrow> nat \<Rightarrow> nat \<Rightarrow> module_row list \<Rightarrow> store \<Rightarrow> store" where
  "quizLoop p jobId c n i [] s = s"
| "quizLoop p jobId c n i (m # ms) s =
     quizLoop p jobId c n (Suc i) ms (quizBody p jobId c n i m s)"

definition stage3 :: "llm_provider \<Rightarrow> ident \<Rightarrow> course \<Rightarrow> module_row list \<Rightarrow> store \<Rightarrow> store" where
  "stage3 p jobId c ms s0 =
     (let s1 = updateProgress jobId 45 ''Stage 3: Generating quizzes'' s0;
          s2 = logEvent jobId ''Stage 3'' Info ''Starting quiz generation for all modules'' None s1;
          s3 = quizLoop p jobId c (length ms) 0 ms s2
      in updateProgress jobId 70 ''Stage 3: Complete'' s3)"

section \<open>Stage 4: video resources per module\<close>

definition videoQuery :: "course \<Rightarrow> module_row \<Rightarrow> string" where
  "videoQuery c m = c_topic c @ '' '' @ m_title m @ '' tutorial''"

text \<open>The video at index \<open>j\<close> (from 0) of the search result.\<close>

definition resourceRow :: "module_row \<Rightarrow> nat \<times> youtube_resource \<Rightarrow> resource_row" where
  "resourceRow m jv =
     (case jv of (j, video) \<Rightarrow>
        \<lparr>r_moduleId = m_id m, r_provider = ''youtube'', r_title = yt_title video,
         r_url = yt_url video, r_channel = yt_channel video,
         r_durationSeconds = yt_durationSeconds video,
         r_thumbnailUrl = yt_thumbnailUrl video, r_reason = yt_reason video,
         r_order = int j + 1\<rparr>)"

definition createResource :: "module_row \<Rightarrow> nat \<times> youtube_resource \<Rightarrow> store \<Rightarrow> store" where
  "createResource m jv s = s\<lparr>resources := resources s @ [resourceRow m jv]\<rparr>"

definition resourcesBody :: "youtube_provider \<Rightarrow> ident \<Rightarrow> course \<Rightarrow> nat \<Rightarrow> nat \<Rightarrow> module_row \<Rightarrow> store \<Rightarrow> store" where
  "resourcesBody youtubeProvider jobId c n i m s0 =
     (let progress = 75 + ((int i + 1) * 20) div int n;
          s1 = updateProgress jobId progress
                 (''Stage 4: Module '' @ showInt (m_order m) @ '' resources'') s0
      in case callVideos youtubeProvider (videoQuery c m) 3 s1 of
           (Inr videos, s2) \<Rightarrow>
             logEvent jobId ''Stage 4'' Info
               (''Module '' @ showInt (m_order m) @ '' resources added'')
               (Some [(''count'', JNum (int (length videos)))])
               (fold (createResource m) (enumerate 0 videos) s2)
         | (Inl error, s2) \<Rightarrow>
             logEvent jobId ''Stage 4'' Warn
               (''Module '' @ showInt (m_order m) @ '' resources failed (non-fatal)'')
               (Some [(''error'', jstr (err_message error)),
                      (''errorCode'', JStr YOUTUBE_PROVIDER_FAILURE)]) s2)"

fun resourcesLoop :: "youtube_provider \<Rightarrow> ident \<Rightarrow> course \<Rightarrow> nat \<Rightarrow> nat \<Rightarrow> module_row list \<Rightarrow> store \<Rightarrow> store" where
  "resourcesLoop p jobId c n i [] s = s"
| "resourcesLoop p jobId c n i (m # ms) s =
     resourcesLoop p jobId c n (Suc i) ms (resourcesBody p jobId c n i m s)"

definition stage4 :: "youtube_provider \<Rightarrow> ident \<Rightarrow> course \<Rightarrow> module_row list \<Rightarrow> store \<Rightarrow> store" where
  "stage4 p jobId c ms s0 =
     (let s1 = updateProgress jobId 75 ''Stage 4: Finding video resources'' s0;
          s2 = logEvent jobId ''Stage 4'' Info ''Starting YouTube resource search'' None s1;
          s3 = resourcesLoop p jobId c (length ms) 0 ms s2
      in updateProgress jobId 95 ''Stage 4: Complete'' s3)"

section \<open>Stage 5 and the whole pipeline\<close>

definition activateCourse :: "ident \<Rightarrow> store \<Rightarrow> store" where
  "activateCourse cid s =
     s\<lparr>courses := map (\<lambda>c. if c_id c = cid then c\<lparr>c_status := ''active''\<rparr> else c) (courses s)\<rparr>"

definition stage5 :: "ident \<Rightarrow> course \<Rightarrow> store \<Rightarrow> store" where
  "stage5 jobId c s0 =
     (let s1 = updateProgress jobId 98 ''Stage 5: Finalizing'' s0;
          s2 = logEvent jobId ''Stage 5'' Info ''Finalizing course'' None s1;
          s3 = activateCourse (c_id c) s2;
          s4 = updateProgress jobId 100 ''Stage 5: Complete'' s3
      in logEvent jobId ''Stage 5'' Info ''Course activated''
           (Some [(''courseId'', JNum (int (c_id c)))]) s4)"

text \<open>\<^verbatim>\<open>prisma.job.findUnique({ where: { id }, include: { course: true } })\<close>: the job
  row and, when it refers to an existing course, that course.\<close>

definition jobCourse :: "job \<Rightarrow> store \<Rightarrow> course option" where
  "jobCourse job s =
     (case j_courseId job of None \<Rightarrow> None | Some cid \<Rightarrow> find (\<lambda>c. c_id c = cid) (courses s))"

definition findJobWithCourse :: "ident \<Rightarrow> store \<Rightarrow> (job \<times> course option) option" where
  "findJobWithCourse jobId s =
     (case find (\<lambda>j. j_id j = jobId) (jobs s) of
        None \<Rightarrow> None
      | Some job \<Rightarrow> Some (job, jobCourse job s))"

text \<open>\<^verbatim>\<open>new Error(msg)\<close>: no code; of the stack only its first line is kept.\<close>

definition newError :: "string \<Rightarrow> js_error" where
  "newError msg = \<lparr>err_code = None, err_message = Some msg, err_stack = Some (''Error: '' @ msg)\<rparr>"

text \<open>The part of the pipeline after the skeleton is there: saving the modules,
  reading them back, and stages 2 to 5. None of it can throw in this model.\<close>

definition afterSkeleton :: "env \<Rightarrow> ident \<Rightarrow> course \<Rightarrow> course_skeleton \<Rightarrow> store \<Rightarrow> store" where
  "afterSkeleton e jobId c skeleton s1 =
     (let s2 = fold (createModule c) (sk_modules skeleton) s1;
          s3 = updateProgress jobId 20 ''Stage 1: Complete'' s2;
          ms = findModules (c_id c) s3;
          s4 = stage2 (createLLMProvider e) jobId c ms s3;
          s5 = stage3 (createLLMProvider e) jobId c ms s4;
          s6 = stage4 (createYouTubeProvider e) jobId c ms s5
      in stage5 jobId c s6)"

text \<open>\<^verbatim>\<open>executeGenerateCourse\<close>. A thrown exception is \<open>Inl\<close>, with the store as the
  writes before the throw left it.\<close>

definition executeGenerateCourse :: "env \<Rightarrow> ident \<Rightarrow> store \<Rightarrow> (js_error \<times> store) + store" where
  "executeGenerateCourse e jobId s =
     (case findJobWithCourse jobId s of
        None \<Rightarrow> Inl (newError ''Job or course not found'', s)
      | Some (job, None) \<Rightarrow> Inl (newError ''Job or course not found'', s)
      | Some (job, Some c) \<Rightarrow>
          (case stage1 e jobId c s of
             Inl (err, s1) \<Rightarrow> Inl (err, s1)
           | Inr (skeleton, s1) \<Rightarrow> Inr (afterSkeleton e jobId c skeleton s1)))"

section \<open>The dispatcher\<close>

text \<open>\<^verbatim>\<open>prisma.job.findFirst({ where: { status: 'queued' }, orderBy: { createdAt: 'asc' } })\<close>.\<close>

definition findFirstQueued :: "store \<Rightarrow> job option" where
  "findFirstQueued s =
     (case sort_key j_createdAt (filter (\<lambda>j. j_status j = Queued) (jobs s)) of
        [] \<Rightarrow> None
      | job # _ \<Rightarrow> Some job)"

text \<open>The three status writes of \<^verbatim>\<open>processNextJob\<close> (lines 51 to 58, 66 to 74 and
  83 to 91), named after the job store operations of the spec. None of them looks at
  the row's current status.\<close>

definition claimJob :: "ident \<Rightarrow> store \<Rightarrow> store" where
  "claimJob jobId s =
     (updateJob jobId (\<lambda>j. j\<lparr>j_status := Running, j_currentStage := ''Starting'',
                               j_progressPercent := 0\<rparr>) s)
       \<lparr>progressLog := progressLog s @ [(jobId, 0, ''Starting'')]\<rparr>"

definition markSucceeded :: "ident \<Rightarrow> store \<Rightarrow> store" where
  "markSucceeded jobId s =
     (updateJob jobId (\<lambda>j. j\<lparr>j_status := Succeeded, j_progressPercent := 100,
                               j_currentStage := ''Completed'', j_updatedAt := clock s\<rparr>) s)
       \<lparr>clock := Suc (clock s), progressLog := progressLog s @ [(jobId, 100, ''Completed'')]\<rparr>"

definition markFailed :: "ident \<Rightarrow> string \<Rightarrow> string \<Rightarrow> store \<Rightarrow> store" where
  "markFailed jobId errorCode errorMessage s =
     (updateJob jobId (\<lambda>j. j\<lparr>j_status := Failed, j_errorCode := Some errorCode,
                               j_errorMessage := Some errorMessage, j_updatedAt := clock s\<rparr>) s)
       \<lparr>clock := Suc (clock s)\<rparr>"

text \<open>Lines 61 to 63: the pipeline runs for a job of type \<^verbatim>\<open>GENERATE_COURSE\<close>; a job
  of any other type goes straight to the success write.\<close>

definition runJob :: "env \<Rightarrow> job \<Rightarrow> store \<Rightarrow> (js_error \<times> store) + store" where
  "runJob e job s1 =
     (if j_type job = ''GENERATE_COURSE'' then executeGenerateCourse e (j_id job) s1 else Inr s1)"

definition processNextJob :: "env \<Rightarrow> store \<Rightarrow> store" where
  "processNextJob e s =
     (case findFirstQueued s of
        None \<Rightarrow> s
      | Some job \<Rightarrow>
          (let s1 = claimJob (j_id job) s
           in case runJob e job s1 of
                Inr s2 \<Rightarrow>
                  logEvent (j_id job) ''Completed'' Info ''Job completed successfully'' None
                    (markSucceeded (j_id job) s2)
              | Inl (error, s2) \<Rightarrow>
                  (let errorCode = orElse (err_code error) JOB_RUNNER_FAILURE;
                       errorMessage = orElse (err_message error) ''Unknown error''
                   in logEvent (j_id job) ''Failed'' Error errorMessage
                        (Some [(''errorCode'', JStr errorCode), (''stack'', jstr (err_stack error))])
                        (markFailed (j_id job) errorCode errorMessage s2))))"


section \<open>What the loops write, row by row\<close>

text \<open>The rows one iteration appends, as a function of the provider's answer; \<open>t\<close> is
  the number of provider calls made before the iteration's call, \<open>nid\<close> the next free
  id. The lemmas below show that the loops write exactly these rows.\<close>

definition lessonRowsOf :: "llm_provider \<Rightarrow> course \<Rightarrow> nat \<Rightarrow> module_row \<Rightarrow> lesson_row list" where
  "lessonRowsOf p c t m =
     (case generateLessons p t (lessonsArgs c m) of
        Inr ls \<Rightarrow> map (lessonRow m) (ml_steps ls)
      | Inl error \<Rightarrow> map (fallbackLessonRow c m) [1, 2, 3, 4])"

fun lessonRowsFrom :: "llm_provider \<Rightarrow> course \<Rightarrow> nat \<Rightarrow> module_row list \<Rightarrow> lesson_row list" where
  "lessonRowsFrom p c t [] = []"
| "lessonRowsFrom p c t (m # ms) = lessonRowsOf p c t m @ lessonRowsFrom p c (Suc t) ms"

definition quizRowOf :: "llm_provider \<Rightarrow> course \<Rightarrow> nat \<Rightarrow> ident \<Rightarrow> module_row \<Rightarrow> quiz_row" where
  "quizRowOf p c t nid m =
     \<lparr>q_id = nid, q_moduleId = m_id m,
      q_totalQuestions =
        (case generateQuiz p t (quizArgs c m) of
           Inr quizData \<Rightarrow> int (length (mq_questions quizData))
         | Inl error \<Rightarrow> 3)\<rparr>"

definition questionRowsOf :: "llm_provider \<Rightarrow> course \<Rightarrow> nat \<Rightarrow> ident \<Rightarrow> module_row \<Rightarrow> question_row list" where
  "questionRowsOf p c t nid m =
     (case generateQuiz p t (quizArgs c m) of
        Inr quizData \<Rightarrow> map (questionRow nid) (enumerate 0 (mq_questions quizData))
      | Inl error \<Rightarrow> map (fallbackQuestionRow nid m) [1, 2, 3])"

fun quizRowsFrom :: "llm_provider \<Rightarrow> course \<Rightarrow> nat \<Rightarrow> ident \<Rightarrow> module_row list \<Rightarrow> quiz_row list" where
  "quizRowsFrom p c t nid [] = []"
| "quizRowsFrom p c t nid (m # ms) = quizRowOf p c t nid m # quizRowsFrom p c (Suc t) (Suc nid) ms"

fun questionRowsFrom :: "llm_provider \<Rightarrow> course \<Rightarrow> nat \<Rightarrow> ident \<Rightarrow> module_row list \<Rightarrow> question_row list" where
  "questionRowsFrom p c t nid [] = []"
| "questionRowsFrom p c t nid (m # ms) =
     questionRowsOf p c t nid m @ questionRowsFrom p c (Suc t) (Suc nid) ms"

definition resourceRowsOf :: "youtube_provider \<Rightarrow> course \<Rightarrow> nat \<Rightarrow> module_row \<Rightarrow> resource_row list" where
  "resourceRowsOf p c t m =
     (case searchVideos p t (videoQuery c m) 3 of
        Inr videos \<Rightarrow> map (resourceRow m) (enumerate 0 videos)
      | Inl error \<Rightarrow> [])"

fun resourceRowsFrom :: "youtube_provider \<Rightarrow> course \<Rightarrow> nat \<Rightarrow> module_row list \<Rightarrow> resource_row list" where
  "resourceRowsFrom p c t [] = []"
| "resourceRowsFrom p c t (m # ms) = resourceRowsOf p c t m @ resourceRowsFrom p c (Suc t) ms"

definition resourceEventOf :: "youtube_provider \<Rightarrow> ident \<Rightarrow> course \<Rightarrow> nat \<Rightarrow> module_row \<Rightarrow> job_event" where
  "resourceEventOf p jobId c t m =
     (case searchVideos p t (videoQuery c m) 3 of
        Inr videos \<Rightarrow>
          \<lparr>ev_jobId = jobId, ev_stage = ''Stage 4'', ev_level = Info,
           ev_message = ''Module '' @ showInt (m_order m) @ '' resources added'',
           ev_data = Some [(''count'', JNum (int (length videos)))]\<rparr>
      | Inl error \<Rightarrow>
          \<lparr>ev_jobId = jobId, ev_stage = ''Stage 4'', ev_level = Warn,
           ev_message = ''Module '' @ showInt (m_order m) @ '' resources failed (non-fatal)'',
           ev_data = Some [(''error'', jstr (err_message error)),
                           (''errorCode'', JStr YOUTUBE_PROVIDER_FAILURE)]\<rparr>)"

fun resourceEventsFrom :: "youtube_provider \<Rightarrow> ident \<Rightarrow> course \<Rightarrow> nat \<Rightarrow> module_row list \<Rightarrow> job_event list" where
  "resourceEventsFrom p jobId c t [] = []"
| "resourceEventsFrom p jobId c t (m # ms) =
     resourceEventOf p jobId c t m # resourceEventsFrom p jobId c (Suc t) ms"

text \<open>The progress writes of a per-module loop: iteration \<open>i\<close> (from 0) of \<open>n\<close> writes
  \<open>base + \<lfloor>(i + 1) / n * width\<rfloor>\<close> under the label of its module.\<close>

fun loopProgress :: "ident \<Rightarrow> int \<Rightarrow> int \<Rightarrow> (module_row \<Rightarrow> string) \<Rightarrow> nat \<Rightarrow> nat \<Rightarrow> module_row list \<Rightarrow> (ident \<times> int \<times> string) list" where
  "loopProgress jobId base width lbl n i [] = []"
| "loopProgress jobId base width lbl n i (m # ms) =
     (jobId, base + ((int i + 1) * width) div int n, lbl m)
       # loopProgress jobId base width lbl n (Suc i) ms"

definition lessonsLabel :: "module_row \<Rightarrow> string" where
  "lessonsLabel m = ''Stage 2: Module '' @ showInt (m_order m) @ '' lessons''"

definition quizLabel :: "module_row \<Rightarrow> string" where
  "quizLabel m = ''Stage 3: Module '' @ showInt (m_order m) @ '' quiz''"

definition resourcesLabel :: "module_row \<Rightarrow> string" where
  "resourcesLabel m = ''Stage 4: Module '' @ showInt (m_order m) @ '' resources''"

text \<open>A job row with its three progress fields blanked: what a progress update
  leaves alone.\<close>

definition jobFrame :: "job \<Rightarrow> job" where
  "jobFrame j = j\<lparr>j_progressPercent := 0, j_currentStage := [], j_updatedAt := 0\<rparr>"

definition jobsExcept :: "ident \<Rightarrow> store \<Rightarrow> job list" where
  "jobsExcept i s = filter (\<lambda>j. j_id j \<noteq> i) (jobs s)"

section \<open>Reading the store\<close>

text \<open>What a client polling a job reads, and the tree of a course as the course
  query joins it: the modules of a course, and the lessons, quizzes and resources
  of a module, and the questions of a quiz.\<close>

definition getJob :: "ident \<Rightarrow> store \<Rightarrow> job option" where
  "getJob i s = find (\<lambda>j. j_id j = i) (jobs s)"

definition jobStatus :: "ident \<Rightarrow> store \<Rightarrow> job_status option" where
  "jobStatus i s = map_option j_status (getJob i s)"


definition modulesOf :: "ident \<Rightarrow> store \<Rightarrow> module_row list" where
  "modulesOf cid s = filter (\<lambda>m. m_courseId m = cid) (modules s)"





text \<open>The store a result carries, thrown or returned.\<close>

definition stage1Store :: "(js_error \<times> store) + (course_skeleton \<times> store) \<Rightarrow> store" where
  "stage1Store r = (case r of Inl (err, s) \<Rightarrow> s | Inr (skeleton, s) \<Rightarrow> s)"

definition finalStore :: "(js_error \<times> store) + store \<Rightarrow> store" where
  "finalStore r = (case r of Inl (err, s) \<Rightarrow> s | Inr s \<Rightarrow> s)"

section \<open>Assumptions on the store and on the providers\<close>





text \<open>One of the three skeleton attempts of stage 1 returns a skeleton: the first
  call, the retry or the third one, all to the provider the factory selects, made
  when \<open>t\<close> provider calls have gone before.\<close>

definition skeletonAvailable :: "env \<Rightarrow> course \<Rightarrow> nat \<Rightarrow> bool" where
  "skeletonAvailable e c t \<longleftrightarrow>
     \<not> isl (generateCourseSkeleton (createLLMProvider e) t (skeletonArgs c)) \<or>
     \<not> isl (generateCourseSkeleton (createLLMProvider e) (Suc t) (skeletonArgs c)) \<or>
     \<not> isl (generateCourseSkeleton (createLLMProvider e) (Suc (Suc t)) (skeletonArgs c))"

text \<open>The module rows stage 1 inserts for a skeleton, and the module list the later
  stages iterate over (what \<open>findModules\<close> returns once they are inserted).\<close>

definition newModuleRows :: "course \<Rightarrow> course_skeleton \<Rightarrow> store \<Rightarrow> module_row list" where
  "newModuleRows c skeleton s =
     map (\<lambda>(k, md). moduleRow k c md) (enumerate (nextId s) (sk_modules skeleton))"

definition pipelineModules :: "course \<Rightarrow> course_skeleton \<Rightarrow> store \<Rightarrow> module_row list" where
  "pipelineModules c skeleton s =
     sort_key m_order (filter (\<lambda>m. m_courseId m = c_id c) (modules s @ newModuleRows c skeleton s))"

section \<open>Example inputs\<close>

text \<open>A provider error, a skeleton that passes \<open>CourseSkeletonSchema\<close>, an LLM provider
  that is down, one that only produces skeletons, and a video provider that is
  down.\<close>

definition providerDown :: js_error where
  "providerDown =
     \<lparr>err_code = Some ''LLM_PROVIDER_FAILURE'', err_message = Some ''provider down'',
      err_stack = None\<rparr>"

definition demoSkeleton :: course_skeleton where
  "demoSkeleton =
     \<lparr>sk_topic = ''Docker Containers'', sk_level = ''beginner'',
      sk_modules =
        [\<lparr>sm_order = 1, sm_title = ''Images'', sm_description = ''Building images'',
          sm_outcomes = [''build'', ''tag'']\<rparr>,
         \<lparr>sm_order = 2, sm_title = ''Containers'', sm_description = ''Running containers'',
          sm_outcomes = [''run'', ''stop'']\<rparr>,
         \<lparr>sm_order = 3, sm_title = ''Volumes'', sm_description = ''Persisting data'',
          sm_outcomes = [''mount'', ''backup'']\<rparr>,
         \<lparr>sm_order = 4, sm_title = ''Networks'', sm_description = ''Connecting containers'',
          sm_outcomes = [''bridge'', ''expose'']\<rparr>,
         \<lparr>sm_order = 5, sm_title = ''Compose'', sm_description = ''Multi-container apps'',
          sm_outcomes = [''define'', ''deploy'']\<rparr>]\<rparr>"

definition downLLM :: llm_provider where
  "downLLM =
     \<lparr>generateCourseSkeleton = (\<lambda>t a. Inl providerDown),
      generateLessons = (\<lambda>t a. Inl providerDown),
      generateQuiz = (\<lambda>t a. Inl providerDown)\<rparr>"

definition skeletonOnlyLLM :: llm_provider where
  "skeletonOnlyLLM =
     \<lparr>generateCourseSkeleton = (\<lambda>t a. Inr demoSkeleton),
      generateLessons = (\<lambda>t a. Inl providerDown),
      generateQuiz = (\<lambda>t a. Inl providerDown)\<rparr>"

definition downYouTube :: youtube_provider where
  "downYouTube = \<lparr>searchVideos = (\<lambda>t q n. Inl providerDown)\<rparr>"

text \<open>No API key configured: the factories select the mock providers.\<close>

definition demoEnv :: env where
  "demoEnv =
     \<lparr>hasOpenAIKey = False, openAIProvider = downLLM, mockLLMProvider = skeletonOnlyLLM,
      hasYouTubeKey = False, youTubeDataApiProvider = downYouTube,
      mockYouTubeProvider = downYouTube\<rparr>"

text \<open>An OpenAI key is configured and the OpenAI provider is down, while the mock
  provider would deliver.\<close>

definition keyedEnv :: env where
  "keyedEnv = demoEnv\<lparr>hasOpenAIKey := True\<rparr>"

definition failedJob :: job where
  "failedJob =
     \<lparr>j_id = 2, j_type = ''GENERATE_COURSE'', j_status = Failed, j_progressPercent = 12,
      j_currentStage = ''Stage 1: Retrying with repair'',
      j_errorCode = Some ''LLM_PROVIDER_FAILURE'', j_errorMessage = Some ''provider down'',
      j_courseId = Some 0, j_createdAt = 5, j_updatedAt = 6\<rparr>"

definition queuedJob :: job where
  "queuedJob =
     \<lparr>j_id = 3, j_type = ''GENERATE_COURSE'', j_status = Queued, j_progressPercent = 0,
      j_currentStage = [], j_errorCode = None, j_errorMessage = None,
      j_courseId = Some 1, j_createdAt = 7, j_updatedAt = 7\<rparr>"

definition demoCourse :: course where
  "demoCourse =
     \<lparr>c_id = 1, c_topic = ''Docker Containers'', c_level = ''beginner'', c_timePerDay = 20,
      c_status = ''draft''\<rparr>"

text \<open>A store after one failed job, with the job of the spec's scenario (topic
  "Docker Containers", beginner, 20 minutes a day) queued.\<close>

definition demoStore :: store where
  "demoStore =
     \<lparr>jobs = [failedJob, queuedJob],
      courses = [\<lparr>c_id = 0, c_topic = ''Rust'', c_level = ''advanced'', c_timePerDay = 30,
                  c_status = ''draft''\<rparr>, demoCourse],
      modules = [], lessons = [], quizzes = [], questions = [], resources = [], events = [],
      nextId = 4, clock = 8, calls = [], progressLog = []\<rparr>"

section \<open>The progress mapping\<close>

text \<open>The progress writes of the pipeline in the order it makes them: those of
  stage 1 (\<open>retried\<close> says whether the first skeleton call failed), and those that
  follow once the skeleton is there, for the module list \<open>ms\<close>.\<close>

definition stage1Writes :: "ident \<Rightarrow> bool \<Rightarrow> (ident \<times> int \<times> string) list" where
  "stage1Writes i retried =
     (i, 10, ''Stage 1: Generating course skeleton'')
       # (if retried then [(i, 12, ''Stage 1: Retrying with repair'')] else [])"

definition laterWrites :: "ident \<Rightarrow> module_row list \<Rightarrow> (ident \<times> int \<times> string) list" where
  "laterWrites i ms =
     (i, 20, ''Stage 1: Complete'') # (i, 25, ''Stage 2: Generating lessons'')
       # loopProgress i 25 15 lessonsLabel (length ms) 0 ms
       @ (i, 40, ''Stage 2: Complete'') # (i, 45, ''Stage 3: Generating quizzes'')
       # loopProgress i 45 25 quizLabel (length ms) 0 ms
       @ (i, 70, ''Stage 3: Complete'') # (i, 75, ''Stage 4: Finding video resources'')
       # loopProgress i 75 20 resourcesLabel (length ms) 0 ms
       @ [(i, 95, ''Stage 4: Complete''), (i, 98, ''Stage 5: Finalizing''),
          (i, 100, ''Stage 5: Complete'')]"

text \<open>The spec's progress mapping: the stage a progress write belongs to is read
  off its label (every label of the pipeline starts with "Stage k"); stage 1 spans 0
  to 20, stage 2 spans 20 to 40, stage 3 spans 40 to 70, stage 4 spans 70 to
  95 and stage 5 spans 95 to 100.\<close>

definition stageOfLabel :: "string \<Rightarrow> int option" where
  "stageOfLabel l =
     (if take 7 l = ''Stage 1'' then Some 1
      else if take 7 l = ''Stage 2'' then Some 2
      else if take 7 l = ''Stage 3'' then Some 3
      else if take 7 l = ''Stage 4'' then Some 4
      else if take 7 l = ''Stage 5'' then Some 5
      else None)"

definition stageRange :: "int \<Rightarrow> int \<times> int" where
  "stageRange k =
     (if k = 1 then (0, 20) else if k = 2 then (20, 40) else if k = 3 then (40, 70)
      else if k = 4 then (70, 95) else (95, 100))"

definition inStageRange :: "ident \<times> int \<times> string \<Rightarrow> bool" where
  "inStageRange w =
     (case stageOfLabel (snd (snd w)) of
        None \<Rightarrow> False
      | Some k \<Rightarrow> fst (stageRange k) \<le> fst (snd w) \<and> fst (snd w) \<le> snd (stageRange k))"

text \<open>The percent values written under the labels of stage \<open>k\<close>, in order.\<close>

definition stageWrites :: "int \<Rightarrow> (ident \<times> int \<times> string) list \<Rightarrow> int list" where
  "stageWrites k ws = map (\<lambda>w. fst (snd w)) (filter (\<lambda>w. stageOfLabel (snd (snd w)) = Some k) ws)"

text \<open>Interpolation per module: after module \<open>q\<close> of \<open>n\<close> (counted from 1) the
  percent is \<open>base + \<lfloor>q / n * width\<rfloor>\<close>.\<close>

definition interpolated :: "int \<Rightarrow> int \<Rightarrow> nat \<Rightarrow> int list" where
  "interpolated base width n = map (\<lambda>q. base + ((int q + 1) * width) div int n) [0..<n]"

section \<open>The fallback lessons of the spec\<close>


section \<open>Submission intake and the idempotency registry\<close>

text \<open>\<^verbatim>\<open>GeneratePathRequestSchema\<close> of schemas.ts, on a request whose defaults have been
  filled in. \<^verbatim>\<open>z.string().uuid()\<close> is read as the 8-4-4-4-12 layout of hexadecimal
  digits; the optional \<^verbatim>\<open>deadline\<close> is left out.\<close>

record path_request =
  rq_topic :: string
  rq_level :: string
  rq_timePerDay :: int
  rq_timePerWeek :: "int option"
  rq_idempotencyKey :: string

definition isHexDigit :: "char \<Rightarrow> bool" where
  "isHexDigit ch \<longleftrightarrow> ch \<in> set ''0123456789abcdefABCDEF''"

definition isUuid :: "string \<Rightarrow> bool" where
  "isUuid k \<longleftrightarrow>
     length k = 36 \<and>
     list_all (\<lambda>(i, ch). if i \<in> {8, 13, 18, 23} then ch = CHR ''-'' else isHexDigit ch)
       (enumerate 0 k)"

definition GeneratePathRequestSchema :: "path_request \<Rightarrow> bool" where
  "GeneratePathRequestSchema r \<longleftrightarrow>
     3 \<le> length (rq_topic r) \<and> length (rq_topic r) \<le> 200 \<and>
     rq_level r \<in> {''beginner'', ''intermediate'', ''advanced''} \<and>
     5 \<le> rq_timePerDay r \<and> rq_timePerDay r \<le> 480 \<and>
     (case rq_timePerWeek r of None \<Rightarrow> True | Some w \<Rightarrow> 10 \<le> w \<and> w \<le> 3360) \<and>
     isUuid (rq_idempotencyKey r)"

text \<open>Modelled from the spec: the submission route
  (\<^verbatim>\<open>src/app/api/path/generate/route.ts\<close>) and the Prisma schema with its
  \<^verbatim>\<open>IdempotencyKey\<close> table are not among the sources. The spec's registry contract is
  \<^verbatim>\<open>reserve(key) -> {created: bool, jobId}\<close>: "atomically either creates a new mapping
  to a freshly allocated job id (when absent) or returns the existing mapping (when
  present)". The spec's submission intake: "On receipt: reserve idempotency key; if
  new, create Course (draft) + Job (queued) and return \<^verbatim>\<open>{jobId}\<close>; if existing, return
  the existing \<^verbatim>\<open>{jobId}\<close> plus an indicator that it already existed"; a submission of
  the wrong shape is "rejected with validation error before any Job or Course is
  created". The job store's \<^verbatim>\<open>createJob(courseRef)\<close> gives a job "in status queued,
  progress 0". One submission is one atomic step; ids come from the store's
  generator.\<close>

record intake =
  registry :: "(string \<times> ident) list"
  db :: store

datatype submit_response = ValidationError | JobCreated ident | JobExists ident

fun responseJobId :: "submit_response \<Rightarrow> ident option" where
  "responseJobId ValidationError = None"
| "responseJobId (JobCreated jid) = Some jid"
| "responseJobId (JobExists jid) = Some jid"

definition reserve :: "string \<Rightarrow> intake \<Rightarrow> (bool \<times> ident) \<times> intake" where
  "reserve key st =
     (case map_of (registry st) key of
        Some jid \<Rightarrow> ((False, jid), st)
      | None \<Rightarrow>
          ((True, nextId (db st)),
           st\<lparr>registry := registry st @ [(key, nextId (db st))],
              db := (db st)\<lparr>nextId := Suc (nextId (db st))\<rparr>\<rparr>))"

definition createCourse :: "path_request \<Rightarrow> store \<Rightarrow> ident \<times> store" where
  "createCourse r s =
     (nextId s,
      s\<lparr>courses := courses s @
           [\<lparr>c_id = nextId s, c_topic = rq_topic r, c_level = rq_level r,
             c_timePerDay = rq_timePerDay r, c_status = ''draft''\<rparr>],
        nextId := Suc (nextId s)\<rparr>)"

definition createJob :: "ident \<Rightarrow> ident \<Rightarrow> store \<Rightarrow> store" where
  "createJob jid cid s =
     s\<lparr>jobs := jobs s @
          [\<lparr>j_id = jid, j_type = ''GENERATE_COURSE'', j_status = Queued, j_progressPercent = 0,
            j_currentStage = [], j_errorCode = None, j_errorMessage = None,
            j_courseId = Some cid, j_createdAt = clock s, j_updatedAt = clock s\<rparr>],
       clock := Suc (clock s)\<rparr>"

definition submit :: "path_request \<Rightarrow> intake \<Rightarrow> submit_response \<times> intake" where
  "submit r st =
     (if \<not> GeneratePathRequestSchema r then (ValidationError, st)
      else
        (let ((created, jid), st1) = reserve (rq_idempotencyKey r) st
         in if created
            then (let (cid, s1) = createCourse r (db st1)
                  in (JobCreated jid, st1\<lparr>db := createJob jid cid s1\<rparr>))
            else (JobExists jid, st1)))"

text \<open>A run of submissions, one after the other.\<close>

definition submitAll :: "path_request list \<Rightarrow> intake \<Rightarrow> intake" where
  "submitAll rs st = fold (\<lambda>r st'. snd (submit r st')) rs st"

text \<open>The jobs a key resolves to, and the courses those jobs refer to.\<close>

definition jobsForKey :: "string \<Rightarrow> intake \<Rightarrow> job list" where
  "jobsForKey key st =
     filter (\<lambda>j. map_of (registry st) key = Some (j_id j)) (jobs (db st))"

definition coursesForKey :: "string \<Rightarrow> intake \<Rightarrow> course list" where
  "coursesForKey key st =
     filter (\<lambda>c. Some (c_id c) \<in> set (map j_courseId (jobsForKey key st))) (courses (db st))"

text \<open>Primary keys of jobs and courses are unique and were handed out by the
  generator.\<close>

definition wfIntake :: "intake \<Rightarrow> bool" where
  "wfIntake st \<longleftrightarrow>
     distinct (map j_id (jobs (db st))) \<and> distinct (map c_id (courses (db st))) \<and>
     list_all (\<lambda>j. j_id j < nextId (db st)) (jobs (db st)) \<and>
     list_all (\<lambda>c. c_id c < nextId (db st)) (courses (db st))"

text \<open>Example submissions: two with the same key and different topics, one with
  another key.\<close>

definition demoIntake :: intake where
  "demoIntake = \<lparr>registry = [], db = demoStore\<rparr>"

definition firstRequest :: path_request where
  "firstRequest =
     \<lparr>rq_topic = ''Docker Containers'', rq_level = ''beginner'', rq_timePerDay = 20,
      rq_timePerWeek = None, rq_idempotencyKey = ''550e8400-e29b-41d4-a716-446655440000''\<rparr>"

definition otherRequest :: path_request where
  "otherRequest =
     \<lparr>rq_topic = ''Graph Theory'', rq_level = ''advanced'', rq_timePerDay = 45,
      rq_timePerWeek = Some 300, rq_idempotencyKey = ''00000000-0000-4000-8000-00000000000A''\<rparr>"

definition secondRequest :: path_request where
  "secondRequest = firstRequest\<lparr>rq_topic := ''Kubernetes'', rq_timePerDay := 60\<rparr>"

section \<open>Which table each write touches\<close>

lemma updateJob_fields [simp]:
  "courses (updateJob i f s) = courses s"
  "modules (updateJob i f s) = modules s"
  "lessons (updateJob i f s) = lessons s"
  "quizzes (updateJob i f s) = quizzes s"
  "questions (updateJob i f s) = questions s"
  "resources (updateJob i f s) = resources s"
  "events (updateJob i f s) = events s"
  "nextId (updateJob i f s) = nextId s"
  "clock (updateJob i f s) = clock s"
  "calls (updateJob i f s) = calls s"
  "progressLog (updateJob i f s) = progressLog s"
  "jobs (updateJob i f s) = map (\<lambda>j. if j_id j = i then f j else j) (jobs s)"
  by (simp_all add: updateJob_def)

lemma updateProgress_fields [simp]:
  "courses (updateProgress i p l s) = courses s"
  "modules (updateProgress i p l s) = modules s"
  "lessons (updateProgress i p l s) = lessons s"
  "quizzes (updateProgress i p l s) = quizzes s"
  "questions (updateProgress i p l s) = questions s"
  "resources (updateProgress i p l s) = resources s"
  "events (updateProgress i p l s) = events s"
  "nextId (updateProgress i p l s) = nextId s"
  "clock (updateProgress i p l s) = Suc (clock s)"
  "calls (updateProgress i p l s) = calls s"
  "progressLog (updateProgress i p l s) = progressLog s @ [(i, p, l)]"
  by (simp_all add: updateProgress_def)

lemma logEvent_fields [simp]:
  "jobs (logEvent i st lv msg d s) = jobs s"
  "courses (logEvent i st lv msg d s) = courses s"
  "modules (logEvent i st lv msg d s) = modules s"
  "lessons (logEvent i st lv msg d s) = lessons s"
  "quizzes (logEvent i st lv msg d s) = quizzes s"
  "questions (logEvent i st lv msg d s) = questions s"
  "resources (logEvent i st lv msg d s) = resources s"
  "nextId (logEvent i st lv msg d s) = nextId s"
  "clock (logEvent i st lv msg d s) = clock s"
  "calls (logEvent i st lv msg d s) = calls s"
  "progressLog (logEvent i st lv msg d s) = progressLog s"
  "events (logEvent i st lv msg d s) = events s @
     [\<lparr>ev_jobId = i, ev_stage = st, ev_level = lv, ev_message = msg, ev_data = d\<rparr>]"
  by (simp_all add: logEvent_def)

lemma callSkeleton_fields [simp]:
  "fst (callSkeleton p a s) = generateCourseSkeleton p (length (calls s)) a"
  "jobs (snd (callSkeleton p a s)) = jobs s"
  "courses (snd (callSkeleton p a s)) = courses s"
  "modules (snd (callSkeleton p a s)) = modules s"
  "lessons (snd (callSkeleton p a s)) = lessons s"
  "quizzes (snd (callSkeleton p a s)) = quizzes s"
  "questions (snd (callSkeleton p a s)) = questions s"
  "resources (snd (callSkeleton p a s)) = resources s"
  "events (snd (callSkeleton p a s)) = events s"
  "nextId (snd (callSkeleton p a s)) = nextId s"
  "clock (snd (callSkeleton p a s)) = clock s"
  "progressLog (snd (callSkeleton p a s)) = progressLog s"
  "calls (snd (callSkeleton p a s)) = calls s @ [SkeletonCall a]"
  by (simp_all add: callSkeleton_def)

lemma callLessons_fields [simp]:
  "fst (callLessons p a s) = generateLessons p (length (calls s)) a"
  "jobs (snd (callLessons p a s)) = jobs s"
  "courses (snd (callLessons p a s)) = courses s"
  "modules (snd (callLessons p a s)) = modules s"
  "lessons (snd (callLessons p a s)) = lessons s"
  "quizzes (snd (callLessons p a s)) = quizzes s"
  "questions (snd (callLessons p a s)) = questions s"
  "resources (snd (callLessons p a s)) = resources s"
  "events (snd (callLessons p a s)) = events s"
  "nextId (snd (callLessons p a s)) = nextId s"
  "clock (snd (callLessons p a s)) = clock s"
  "progressLog (snd (callLessons p a s)) = progressLog s"
  "calls (snd (callLessons p a s)) = calls s @ [LessonsCall a]"
  by (simp_all add: callLessons_def)

lemma callQuiz_fields [simp]:
  "fst (callQuiz p a s) = generateQuiz p (length (calls s)) a"
  "jobs (snd (callQuiz p a s)) = jobs s"
  "courses (snd (callQuiz p a s)) = courses s"
  "modules (snd (callQuiz p a s)) = modules s"
  "lessons (snd (callQuiz p a s)) = lessons s"
  "quizzes (snd (callQuiz p a s)) = quizzes s"
  "questions (snd (callQuiz p a s)) = questions s"
  "resources (snd (callQuiz p a s)) = resources s"
  "events (snd (callQuiz p a s)) = events s"
  "nextId (snd (callQuiz p a s)) = nextId s"
  "clock (snd (callQuiz p a s)) = clock s"
  "progressLog (snd (callQuiz p a s)) = progressLog s"
  "calls (snd (callQuiz p a s)) = calls s @ [QuizCall a]"
  by (simp_all add: callQuiz_def)

lemma callVideos_fields [simp]:
  "fst (callVideos p q k s) = searchVideos p (length (calls s)) q k"
  "jobs (snd (callVideos p q k s)) = jobs s"
  "courses (snd (callVideos p q k s)) = courses s"
  "modules (snd (callVideos p q k s)) = modules s"
  "lessons (snd (callVideos p q k s)) = lessons s"
  "quizzes (snd (callVideos p q k s)) = quizzes s"
  "questions (snd (callVideos p q k s)) = questions s"
  "resources (snd (callVideos p q k s)) = resources s"
  "events (snd (callVideos p q k s)) = events s"
  "nextId (snd (callVideos p q k s)) = nextId s"
  "clock (snd (callVideos p q k s)) = clock s"
  "progressLog (snd (callVideos p q k s)) = progressLog s"
  "calls (snd (callVideos p q k s)) = calls s @ [VideoCall q k]"
  by (simp_all add: callVideos_def)

lemma fold_createModule:
  "fold (createModule c) mds s =
     s\<lparr>modules := modules s @ map (\<lambda>(k, md). moduleRow k c md) (enumerate (nextId s) mds),
       nextId := nextId s + length mds\<rparr>"
  by (induction mds arbitrary: s) (simp_all add: createModule_def)

lemma fold_createLesson:
  "fold (createLesson m) steps s = s\<lparr>lessons := lessons s @ map (lessonRow m) steps\<rparr>"
  by (induction steps arbitrary: s) (simp_all add: createLesson_def)

lemma fold_createFallbackLesson:
  "fold (createFallbackLesson c m) js s = s\<lparr>lessons := lessons s @ map (fallbackLessonRow c m) js\<rparr>"
  by (induction js arbitrary: s) (simp_all add: createFallbackLesson_def)

lemma fold_createQuestion:
  "fold (createQuestion qid) jqs s = s\<lparr>questions := questions s @ map (questionRow qid) jqs\<rparr>"
  by (induction jqs arbitrary: s) (simp_all add: createQuestion_def)

lemma fold_createFallbackQuestion:
  "fold (createFallbackQuestion qid m) js s =
     s\<lparr>questions := questions s @ map (fallbackQuestionRow qid m) js\<rparr>"
  by (induction js arbitrary: s) (simp_all add: createFallbackQuestion_def)

lemma fold_createResource:
  "fold (createResource m) jvs s = s\<lparr>resources := resources s @ map (resourceRow m) jvs\<rparr>"
  by (induction jvs arbitrary: s) (simp_all add: createResource_def)

lemma filter_other_map_upd:
  "(\<And>j. j_id (f j) = j_id j) \<Longrightarrow>
   filter (\<lambda>j. j_id j \<noteq> i) (map (\<lambda>j. if j_id j = i then f j else j) xs) =
   filter (\<lambda>j. j_id j \<noteq> i) xs"
  by (induction xs) simp_all

lemma map_frame_map_upd:
  "(\<And>j. jobFrame (f j) = jobFrame j) \<Longrightarrow>
   map jobFrame (map (\<lambda>j. if j_id j = i then f j else j) xs) = map jobFrame xs"
  by (induction xs) simp_all

lemma jobsExcept_cong: "jobs s = jobs s' \<Longrightarrow> jobsExcept i s = jobsExcept i s'"
  by (simp add: jobsExcept_def)

lemma updateProgress_jobs [simp]:
  "map jobFrame (jobs (updateProgress i p l s)) = map jobFrame (jobs s)"
  "jobsExcept i (updateProgress i p l s) = jobsExcept i s"
  by (simp_all add: updateProgress_def jobsExcept_def updateJob_def filter_other_map_upd
      map_frame_map_upd jobFrame_def)

lemma logEvent_jobsExcept [simp]: "jobsExcept i (logEvent j st lv msg d s) = jobsExcept i s"
  by (simp add: jobsExcept_def)

lemma lessonsBody_fields [simp]:
  "courses (lessonsBody p i c n k m s) = courses s"
  "modules (lessonsBody p i c n k m s) = modules s"
  "quizzes (lessonsBody p i c n k m s) = quizzes s"
  "questions (lessonsBody p i c n k m s) = questions s"
  "resources (lessonsBody p i c n k m s) = resources s"
  "nextId (lessonsBody p i c n k m s) = nextId s"
  "calls (lessonsBody p i c n k m s) = calls s @ [LessonsCall (lessonsArgs c m)]"
  "progressLog (lessonsBody p i c n k m s) =
     progressLog s @ [(i, 25 + ((int k + 1) * 15) div int n, lessonsLabel m)]"
  "lessons (lessonsBody p i c n k m s) = lessons s @ lessonRowsOf p c (length (calls s)) m"
  "jobs (lessonsBody p i c n k m s) =
     jobs (updateProgress i (25 + ((int k + 1) * 15) div int n) (lessonsLabel m) s)"
  by (simp_all add: lessonsBody_def callLessons_def Let_def lessonRowsOf_def lessonsLabel_def
      fold_createLesson createFallbackLesson_def split: sum.splits)

lemma lessonsBody_jobs [simp]:
  "map jobFrame (jobs (lessonsBody p i c n k m s)) = map jobFrame (jobs s)"
  "jobsExcept i (lessonsBody p i c n k m s) = jobsExcept i s"
  using updateProgress_jobs[of i _ _ s] by (simp_all add: jobsExcept_def)

lemma quizBody_fields [simp]:
  "courses (quizBody p i c n k m s) = courses s"
  "modules (quizBody p i c n k m s) = modules s"
  "lessons (quizBody p i c n k m s) = lessons s"
  "resources (quizBody p i c n k m s) = resources s"
  "nextId (quizBody p i c n k m s) = Suc (nextId s)"
  "calls (quizBody p i c n k m s) = calls s @ [QuizCall (quizArgs c m)]"
  "progressLog (quizBody p i c n k m s) =
     progressLog s @ [(i, 45 + ((int k + 1) * 25) div int n, quizLabel m)]"
  "quizzes (quizBody p i c n k m s) = quizzes s @ [quizRowOf p c (length (calls s)) (nextId s) m]"
  "questions (quizBody p i c n k m s) =
     questions s @ questionRowsOf p c (length (calls s)) (nextId s) m"
  "jobs (quizBody p i c n k m s) =
     jobs (updateProgress i (45 + ((int k + 1) * 25) div int n) (quizLabel m) s)"
  by (simp_all add: quizBody_def callQuiz_def Let_def quizRowOf_def questionRowsOf_def quizLabel_def
      createQuiz_def fold_createQuestion createFallbackQuestion_def split: sum.splits)

lemma quizBody_jobs [simp]:
  "map jobFrame (jobs (quizBody p i c n k m s)) = map jobFrame (jobs s)"
  "jobsExcept i (quizBody p i c n k m s) = jobsExcept i s"
  using updateProgress_jobs[of i _ _ s] by (simp_all add: jobsExcept_def)

lemma resourcesBody_fields [simp]:
  "courses (resourcesBody p i c n k m s) = courses s"
  "modules (resourcesBody p i c n k m s) = modules s"
  "lessons (resourcesBody p i c n k m s) = lessons s"
  "quizzes (resourcesBody p i c n k m s) = quizzes s"
  "questions (resourcesBody p i c n k m s) = questions s"
  "nextId (resourcesBody p i c n k m s) = nextId s"
  "calls (resourcesBody p i c n k m s) = calls s @ [VideoCall (videoQuery c m) 3]"
  "progressLog (resourcesBody p i c n k m s) =
     progressLog s @ [(i, 75 + ((int k + 1) * 20) div int n, resourcesLabel m)]"
  "resources (resourcesBody p i c n k m s) = resources s @ resourceRowsOf p c (length (calls s)) m"
  "events (resourcesBody p i c n k m s) = events s @ [resourceEventOf p i c (length (calls s)) m]"
  "jobs (resourcesBody p i c n k m s) =
     jobs (updateProgress i (75 + ((int k + 1) * 20) div int n) (resourcesLabel m) s)"
  by (simp_all add: resourcesBody_def callVideos_def Let_def resourceRowsOf_def resourceEventOf_def
      resourcesLabel_def fold_createResource split: sum.splits)

lemma resourcesBody_jobs [simp]:
  "map jobFrame (jobs (resourcesBody p i c n k m s)) = map jobFrame (jobs s)"
  "jobsExcept i (resourcesBody p i c n k m s) = jobsExcept i s"
  using updateProgress_jobs[of i _ _ s] by (simp_all add: jobsExcept_def)

section \<open>The loops\<close>

lemma lessonsLoop_fields [simp]:
  "courses (lessonsLoop p i c n k ms s) = courses s"
  "modules (lessonsLoop p i c n k ms s) = modules s"
  "quizzes (lessonsLoop p i c n k ms s) = quizzes s"
  "questions (lessonsLoop p i c n k ms s) = questions s"
  "resources (lessonsLoop p i c n k ms s) = resources s"
  "nextId (lessonsLoop p i c n k ms s) = nextId s"
  "map jobFrame (jobs (lessonsLoop p i c n k ms s)) = map jobFrame (jobs s)"
  "jobsExcept i (lessonsLoop p i c n k ms s) = jobsExcept i s"
  by (induction ms arbitrary: k s; simp)+

lemma lessonsLoop_calls [simp]:
  "calls (lessonsLoop p i c n k ms s) = calls s @ map (\<lambda>m. LessonsCall (lessonsArgs c m)) ms"
  by (induction ms arbitrary: k s) simp_all

lemma lessonsLoop_progressLog [simp]:
  "progressLog (lessonsLoop p i c n k ms s) = progressLog s @ loopProgress i 25 15 lessonsLabel n k ms"
  by (induction ms arbitrary: k s) simp_all

lemma lessonsLoop_lessons [simp]:
  "lessons (lessonsLoop p i c n k ms s) = lessons s @ lessonRowsFrom p c (length (calls s)) ms"
  by (induction ms arbitrary: k s) simp_all

lemma quizLoop_fields [simp]:
  "courses (quizLoop p i c n k ms s) = courses s"
  "modules (quizLoop p i c n k ms s) = modules s"
  "lessons (quizLoop p i c n k ms s) = lessons s"
  "resources (quizLoop p i c n k ms s) = resources s"
  "map jobFrame (jobs (quizLoop p i c n k ms s)) = map jobFrame (jobs s)"
  "jobsExcept i (quizLoop p i c n k ms s) = jobsExcept i s"
  by (induction ms arbitrary: k s; simp)+

lemma quizLoop_nextId [simp]: "nextId (quizLoop p i c n k ms s) = nextId s + length ms"
  by (induction ms arbitrary: k s) simp_all

lemma quizLoop_calls [simp]:
  "calls (quizLoop p i c n k ms s) = calls s @ map (\<lambda>m. QuizCall (quizArgs c m)) ms"
  by (induction ms arbitrary: k s) simp_all

lemma quizLoop_progressLog [simp]:
  "progressLog (quizLoop p i c n k ms s) = progressLog s @ loopProgress i 45 25 quizLabel n k ms"
  by (induction ms arbitrary: k s) simp_all

lemma quizLoop_quizzes [simp]:
  "quizzes (quizLoop p i c n k ms s) = quizzes s @ quizRowsFrom p c (length (calls s)) (nextId s) ms"
  by (induction ms arbitrary: k s) simp_all

lemma quizLoop_questions [simp]:
  "questions (quizLoop p i c n k ms s) =
     questions s @ questionRowsFrom p c (length (calls s)) (nextId s) ms"
  by (induction ms arbitrary: k s) simp_all

lemma resourcesLoop_fields [simp]:
  "courses (resourcesLoop p i c n k ms s) = courses s"
  "modules (resourcesLoop p i c n k ms s) = modules s"
  "lessons (resourcesLoop p i c n k ms s) = lessons s"
  "quizzes (resourcesLoop p i c n k ms s) = quizzes s"
  "questions (resourcesLoop p i c n k ms s) = questions s"
  "nextId (resourcesLoop p i c n k ms s) = nextId s"
  "map jobFrame (jobs (resourcesLoop p i c n k ms s)) = map jobFrame (jobs s)"
  "jobsExcept i (resourcesLoop p i c n k ms s) = jobsExcept i s"
  by (induction ms arbitrary: k s; simp)+

lemma resourcesLoop_calls [simp]:
  "calls (resourcesLoop p i c n k ms s) = calls s @ map (\<lambda>m. VideoCall (videoQuery c m) 3) ms"
  by (induction ms arbitrary: k s) simp_all

lemma resourcesLoop_progressLog [simp]:
  "progressLog (resourcesLoop p i c n k ms s) =
     progressLog s @ loopProgress i 75 20 resourcesLabel n k ms"
  by (induction ms arbitrary: k s) simp_all

lemma resourcesLoop_resources [simp]:
  "resources (resourcesLoop p i c n k ms s) = resources s @ resourceRowsFrom p c (length (calls s)) ms"
  by (induction ms arbitrary: k s) simp_all

lemma resourcesLoop_events [simp]:
  "events (resourcesLoop p i c n k ms s) = events s @ resourceEventsFrom p i c (length (calls s)) ms"
  by (induction ms arbitrary: k s) simp_all

lemma stage2_fields [simp]:
  "courses (stage2 p i c ms s) = courses s"
  "modules (stage2 p i c ms s) = modules s"
  "quizzes (stage2 p i c ms s) = quizzes s"
  "questions (stage2 p i c ms s) = questions s"
  "resources (stage2 p i c ms s) = resources s"
  "nextId (stage2 p i c ms s) = nextId s"
  "map jobFrame (jobs (stage2 p i c ms s)) = map jobFrame (jobs s)"
  "jobsExcept i (stage2 p i c ms s) = jobsExcept i s"
  "calls (stage2 p i c ms s) = calls s @ map (\<lambda>m. LessonsCall (lessonsArgs c m)) ms"
  "lessons (stage2 p i c ms s) = lessons s @ lessonRowsFrom p c (length (calls s)) ms"
  "progressLog (stage2 p i c ms s) =
     progressLog s @ (i, 25, ''Stage 2: Generating lessons'')
       # loopProgress i 25 15 lessonsLabel (length ms) 0 ms @ [(i, 40, ''Stage 2: Complete'')]"
  by (simp_all add: stage2_def Let_def)

lemma stage3_fields [simp]:
  "courses (stage3 p i c ms s) = courses s"
  "modules (stage3 p i c ms s) = modules s"
  "lessons (stage3 p i c ms s) = lessons s"
  "resources (stage3 p i c ms s) = resources s"
  "nextId (stage3 p i c ms s) = nextId s + length ms"
  "map jobFrame (jobs (stage3 p i c ms s)) = map jobFrame (jobs s)"
  "jobsExcept i (stage3 p i c ms s) = jobsExcept i s"
  "calls (stage3 p i c ms s) = calls s @ map (\<lambda>m. QuizCall (quizArgs c m)) ms"
  "quizzes (stage3 p i c ms s) = quizzes s @ quizRowsFrom p c (length (calls s)) (nextId s) ms"
  "questions (stage3 p i c ms s) =
     questions s @ questionRowsFrom p c (length (calls s)) (nextId s) ms"
  "progressLog (stage3 p i c ms s) =
     progressLog s @ (i, 45, ''Stage 3: Generating quizzes'')
       # loopProgress i 45 25 quizLabel (length ms) 0 ms @ [(i, 70, ''Stage 3: Complete'')]"
  by (simp_all add: stage3_def Let_def)

lemma stage4_fields [simp]:
  "courses (stage4 p i c ms s) = courses s"
  "modules (stage4 p i c ms s) = modules s"
  "lessons (stage4 p i c ms s) = lessons s"
  "quizzes (stage4 p i c ms s) = quizzes s"
  "questions (stage4 p i c ms s) = questions s"
  "nextId (stage4 p i c ms s) = nextId s"
  "map jobFrame (jobs (stage4 p i c ms s)) = map jobFrame (jobs s)"
  "jobsExcept i (stage4 p i c ms s) = jobsExcept i s"
  "calls (stage4 p i c ms s) = calls s @ map (\<lambda>m. VideoCall (videoQuery c m) 3) ms"
  "resources (stage4 p i c ms s) = resources s @ resourceRowsFrom p c (length (calls s)) ms"
  "events (stage4 p i c ms s) =
     events s @ \<lparr>ev_jobId = i, ev_stage = ''Stage 4'', ev_level = Info,
                  ev_message = ''Starting YouTube resource search'', ev_data = None\<rparr>
       # resourceEventsFrom p i c (length (calls s)) ms"
  "progressLog (stage4 p i c ms s) =
     progressLog s @ (i, 75, ''Stage 4: Finding video resources'')
       # loopProgress i 75 20 resourcesLabel (length ms) 0 ms @ [(i, 95, ''Stage 4: Complete'')]"
  by (simp_all add: stage4_def Let_def)

lemma activateCourse_fields [simp]:
  "jobs (activateCourse cid s) = jobs s"
  "modules (activateCourse cid s) = modules s"
  "lessons (activateCourse cid s) = lessons s"
  "quizzes (activateCourse cid s) = quizzes s"
  "questions (activateCourse cid s) = questions s"
  "resources (activateCourse cid s) = resources s"
  "events (activateCourse cid s) = events s"
  "nextId (activateCourse cid s) = nextId s"
  "clock (activateCourse cid s) = clock s"
  "calls (activateCourse cid s) = calls s"
  "progressLog (activateCourse cid s) = progressLog s"
  "courses (activateCourse cid s) =
     map (\<lambda>c. if c_id c = cid then c\<lparr>c_status := ''active''\<rparr> else c) (courses s)"
  by (simp_all add: activateCourse_def)

lemma activateCourse_jobsExcept [simp]: "jobsExcept i (activateCourse cid s) = jobsExcept i s"
  by (simp add: jobsExcept_def)

lemma stage5_fields [simp]:
  "modules (stage5 i c s) = modules s"
  "lessons (stage5 i c s) = lessons s"
  "quizzes (stage5 i c s) = quizzes s"
  "questions (stage5 i c s) = questions s"
  "resources (stage5 i c s) = resources s"
  "nextId (stage5 i c s) = nextId s"
  "calls (stage5 i c s) = calls s"
  "map jobFrame (jobs (stage5 i c s)) = map jobFrame (jobs s)"
  "jobsExcept i (stage5 i c s) = jobsExcept i s"
  "events (stage5 i c s) =
     events s @ [\<lparr>ev_jobId = i, ev_stage = ''Stage 5'', ev_level = Info,
                   ev_message = ''Finalizing course'', ev_data = None\<rparr>,
                 \<lparr>ev_jobId = i, ev_stage = ''Stage 5'', ev_level = Info,
                   ev_message = ''Course activated'',
                   ev_data = Some [(''courseId'', JNum (int (c_id c)))]\<rparr>]"
  "progressLog (stage5 i c s) =
     progressLog s @ [(i, 98, ''Stage 5: Finalizing''), (i, 100, ''Stage 5: Complete'')]"
  "jobs (stage5 i c s) = jobs (updateProgress i 100 ''Stage 5: Complete''
      (activateCourse (c_id c) (logEvent i ''Stage 5'' Info ''Finalizing course'' None
         (updateProgress i 98 ''Stage 5: Finalizing'' s))))"
  by (simp_all add: stage5_def Let_def)

section \<open>Stage 1\<close>


lemma jobsExcept_calls_update [simp]: "jobsExcept i (s\<lparr>calls := x\<rparr>) = jobsExcept i s"
  by (simp add: jobsExcept_def)

lemma stage1_jobs [simp]:
  "map jobFrame (jobs (stage1Store (stage1 e i c s))) = map jobFrame (jobs s)"
  "jobsExcept i (stage1Store (stage1 e i c s)) = jobsExcept i s"
  by (simp_all add: stage1_def stage1Store_def callSkeleton_def Let_def split: sum.splits)

lemma stage1_progressLog:
  "progressLog (stage1Store (stage1 e i c s)) =
     progressLog s @ (i, 10, ''Stage 1: Generating course skeleton'')
       # (if isl (generateCourseSkeleton (createLLMProvider e) (length (calls s)) (skeletonArgs c))
          then [(i, 12, ''Stage 1: Retrying with repair'')] else [])"
  by (simp add: stage1_def stage1Store_def callSkeleton_def Let_def split: sum.splits)

lemma stage1_isl:
  "isl (stage1 e i c s) \<longleftrightarrow> \<not> skeletonAvailable e c (length (calls s))"
  by (simp add: stage1_def callSkeleton_def Let_def skeletonAvailable_def split: sum.splits)



section \<open>The status writes and the dispatcher\<close>

lemma jobsExcept_updates [simp]:
  "jobsExcept i (s\<lparr>courses := a\<rparr>) = jobsExcept i s"
  "jobsExcept i (s\<lparr>modules := b\<rparr>) = jobsExcept i s"
  "jobsExcept i (s\<lparr>nextId := n\<rparr>) = jobsExcept i s"
  "jobsExcept i (s\<lparr>clock := k\<rparr>) = jobsExcept i s"
  "jobsExcept i (s\<lparr>progressLog := l\<rparr>) = jobsExcept i s"
  "jobsExcept i (s\<lparr>events := ev\<rparr>) = jobsExcept i s"
  by (simp_all add: jobsExcept_def)

lemma claimJob_fields [simp]:
  "courses (claimJob i s) = courses s"
  "modules (claimJob i s) = modules s"
  "lessons (claimJob i s) = lessons s"
  "quizzes (claimJob i s) = quizzes s"
  "questions (claimJob i s) = questions s"
  "resources (claimJob i s) = resources s"
  "events (claimJob i s) = events s"
  "nextId (claimJob i s) = nextId s"
  "clock (claimJob i s) = clock s"
  "calls (claimJob i s) = calls s"
  "progressLog (claimJob i s) = progressLog s @ [(i, 0, ''Starting'')]"
  "jobs (claimJob i s) =
     map (\<lambda>j. if j_id j = i
               then j\<lparr>j_status := Running, j_currentStage := ''Starting'', j_progressPercent := 0\<rparr>
               else j) (jobs s)"
  "jobsExcept i (claimJob i s) = jobsExcept i s"
  by (simp_all add: claimJob_def jobsExcept_def updateJob_def filter_other_map_upd)

lemma markSucceeded_fields [simp]:
  "courses (markSucceeded i s) = courses s"
  "modules (markSucceeded i s) = modules s"
  "lessons (markSucceeded i s) = lessons s"
  "quizzes (markSucceeded i s) = quizzes s"
  "questions (markSucceeded i s) = questions s"
  "resources (markSucceeded i s) = resources s"
  "events (markSucceeded i s) = events s"
  "nextId (markSucceeded i s) = nextId s"
  "clock (markSucceeded i s) = Suc (clock s)"
  "calls (markSucceeded i s) = calls s"
  "progressLog (markSucceeded i s) = progressLog s @ [(i, 100, ''Completed'')]"
  "jobs (markSucceeded i s) =
     map (\<lambda>j. if j_id j = i
               then j\<lparr>j_status := Succeeded, j_progressPercent := 100,
                      j_currentStage := ''Completed'', j_updatedAt := clock s\<rparr>
               else j) (jobs s)"
  "jobsExcept i (markSucceeded i s) = jobsExcept i s"
  by (simp_all add: markSucceeded_def jobsExcept_def updateJob_def filter_other_map_upd)

lemma markFailed_fields [simp]:
  "courses (markFailed i ec em s) = courses s"
  "modules (markFailed i ec em s) = modules s"
  "lessons (markFailed i ec em s) = lessons s"
  "quizzes (markFailed i ec em s) = quizzes s"
  "questions (markFailed i ec em s) = questions s"
  "resources (markFailed i ec em s) = resources s"
  "events (markFailed i ec em s) = events s"
  "nextId (markFailed i ec em s) = nextId s"
  "clock (markFailed i ec em s) = Suc (clock s)"
  "calls (markFailed i ec em s) = calls s"
  "progressLog (markFailed i ec em s) = progressLog s"
  "jobs (markFailed i ec em s) =
     map (\<lambda>j. if j_id j = i
               then j\<lparr>j_status := Failed, j_errorCode := Some ec, j_errorMessage := Some em,
                      j_updatedAt := clock s\<rparr>
               else j) (jobs s)"
  "jobsExcept i (markFailed i ec em s) = jobsExcept i s"
  by (simp_all add: markFailed_def jobsExcept_def updateJob_def filter_other_map_upd)

lemma findFirstQueued_Some:
  assumes "findFirstQueued s = Some job"
  shows "job \<in> set (jobs s)" and "j_status job = Queued"
proof -
  from assms obtain rest where
    "sort_key j_createdAt (filter (\<lambda>j. j_status j = Queued) (jobs s)) = job # rest"
    by (auto simp add: findFirstQueued_def split: list.splits)
  then have "job \<in> set (sort_key j_createdAt (filter (\<lambda>j. j_status j = Queued) (jobs s)))"
    by simp
  then have "job \<in> set (filter (\<lambda>j. j_status j = Queued) (jobs s))"
    by simp
  then show "job \<in> set (jobs s)" and "j_status job = Queued"
    by simp_all
qed


lemma processNextJob_Inr:
  "findFirstQueued s = Some job \<Longrightarrow> runJob e job (claimJob (j_id job) s) = Inr s2 \<Longrightarrow>
   processNextJob e s =
     logEvent (j_id job) ''Completed'' Info ''Job completed successfully'' None
       (markSucceeded (j_id job) s2)"
  by (simp add: processNextJob_def Let_def)

lemma processNextJob_Inl:
  "findFirstQueued s = Some job \<Longrightarrow> runJob e job (claimJob (j_id job) s) = Inl (err, s2) \<Longrightarrow>
   processNextJob e s =
     logEvent (j_id job) ''Failed'' Error (orElse (err_message err) ''Unknown error'')
       (Some [(''errorCode'', JStr (orElse (err_code err) JOB_RUNNER_FAILURE)),
              (''stack'', jstr (err_stack err))])
       (markFailed (j_id job) (orElse (err_code err) JOB_RUNNER_FAILURE)
          (orElse (err_message err) ''Unknown error'') s2)"
  by (simp add: processNextJob_def Let_def)

lemma stage1Store_Inl [simp]: "stage1Store (Inl (err, s)) = s"
  by (simp add: stage1Store_def)

lemma stage1Store_Inr [simp]: "stage1Store (Inr (sk, s)) = s"
  by (simp add: stage1Store_def)

lemma finalStore_simps [simp]: "finalStore (Inl (err, s)) = s" "finalStore (Inr s) = s"
  by (simp_all add: finalStore_def)

text \<open>The pipeline after the skeleton, stage by stage.\<close>

lemma afterSkeleton_unfold:
  "afterSkeleton e i c sk s1 =
     stage5 i c
       (stage4 (createYouTubeProvider e) i c (pipelineModules c sk s1)
          (stage3 (createLLMProvider e) i c (pipelineModules c sk s1)
             (stage2 (createLLMProvider e) i c (pipelineModules c sk s1)
                (updateProgress i 20 ''Stage 1: Complete''
                   (s1\<lparr>modules := modules s1 @ newModuleRows c sk s1,
                        nextId := nextId s1 + length (sk_modules sk)\<rparr>)))))"
  by (simp add: afterSkeleton_def Let_def fold_createModule findModules_def pipelineModules_def
      newModuleRows_def)

lemma afterSkeleton_jobs [simp]:
  "map jobFrame (jobs (afterSkeleton e i c sk s1)) = map jobFrame (jobs s1)"
  "jobsExcept i (afterSkeleton e i c sk s1) = jobsExcept i s1"
  by (simp_all add: afterSkeleton_unfold)

lemma stage1_result_jobs:
  assumes "stage1 e i c s = Inl (err, s1) \<or> stage1 e i c s = Inr (sk, s1)"
  shows "map jobFrame (jobs s1) = map jobFrame (jobs s)" and "jobsExcept i s1 = jobsExcept i s"
proof -
  have eq: "stage1Store (stage1 e i c s) = s1" using assms by auto
  show "map jobFrame (jobs s1) = map jobFrame (jobs s)"
    using stage1_jobs(1)[where e=e and i=i and c=c and s=s] unfolding eq .
  show "jobsExcept i s1 = jobsExcept i s"
    using stage1_jobs(2)[where e=e and i=i and c=c and s=s] unfolding eq .
qed

lemma executeGenerateCourse_cases:
  obtains (notFound) "executeGenerateCourse e i s = Inl (newError ''Job or course not found'', s)"
      "\<forall>job c. findJobWithCourse i s \<noteq> Some (job, Some c)"
    | (stage1Failed) job c err s1 where "findJobWithCourse i s = Some (job, Some c)"
      "stage1 e i c s = Inl (err, s1)" "executeGenerateCourse e i s = Inl (err, s1)"
    | (completed) job c sk s1 where "findJobWithCourse i s = Some (job, Some c)"
      "stage1 e i c s = Inr (sk, s1)"
      "executeGenerateCourse e i s = Inr (afterSkeleton e i c sk s1)"
proof (cases "findJobWithCourse i s")
  case None
  then show ?thesis using notFound by (simp add: executeGenerateCourse_def)
next
  case (Some jc)
  obtain job co where jc: "jc = (job, co)" by (cases jc)
  show ?thesis
  proof (cases co)
    case None
    with Some jc show ?thesis using notFound by (simp add: executeGenerateCourse_def)
  next
    case (Some c)
    note c = this
    show ?thesis
    proof (cases "stage1 e i c s")
      case (Inl a)
      obtain err s1 where a: "a = (err, s1)" by (cases a)
      show ?thesis using \<open>findJobWithCourse i s = Some jc\<close> jc c Inl a
        by (intro stage1Failed[of job c err s1]) (simp_all add: executeGenerateCourse_def)
    next
      case (Inr b)
      obtain sk s1 where b: "b = (sk, s1)" by (cases b)
      show ?thesis using \<open>findJobWithCourse i s = Some jc\<close> jc c Inr b
        by (intro completed[of job c sk s1]) (simp_all add: executeGenerateCourse_def)
    qed
  qed
qed

lemma executeGenerateCourse_jobs [simp]:
  "map jobFrame (jobs (finalStore (executeGenerateCourse e i s))) = map jobFrame (jobs s)"
  "jobsExcept i (finalStore (executeGenerateCourse e i s)) = jobsExcept i s"
proof -
  have "map jobFrame (jobs (finalStore (executeGenerateCourse e i s))) = map jobFrame (jobs s)
      \<and> jobsExcept i (finalStore (executeGenerateCourse e i s)) = jobsExcept i s"
  proof (cases rule: executeGenerateCourse_cases[of e i s])
    case notFound
    then show ?thesis by simp
  next
    case (stage1Failed job c err s1)
    then show ?thesis using stage1_result_jobs[where e=e and i=i and c=c and s=s and err=err and ?s1.0=s1] by simp
  next
    case (completed job c sk s1)
    then show ?thesis using stage1_result_jobs[where e=e and i=i and c=c and s=s and sk=sk and ?s1.0=s1] by simp
  qed
  then show "map jobFrame (jobs (finalStore (executeGenerateCourse e i s))) = map jobFrame (jobs s)"
    and "jobsExcept i (finalStore (executeGenerateCourse e i s)) = jobsExcept i s"
    by simp_all
qed

lemma runJob_jobs [simp]:
  "map jobFrame (jobs (finalStore (runJob e job s))) = map jobFrame (jobs s)"
  "jobsExcept (j_id job) (finalStore (runJob e job s)) = jobsExcept (j_id job) s"
  by (simp_all add: runJob_def)



section \<open>Reading a job row\<close>



lemma find_map_fun: "find P (map f xs) = map_option f (find (P \<circ> f) xs)"
  by (induction xs) simp_all

lemma find_map_upd:
  "(\<And>j. j_id (f j) = j_id j) \<Longrightarrow>
   find (\<lambda>j. j_id j = i) (map (\<lambda>j. if j_id j = i then f j else j) xs) =
   map_option f (find (\<lambda>j. j_id j = i) xs)"
  by (induction xs) simp_all





lemma getJob_frame:
  "map_option jobFrame (getJob i s) = find (\<lambda>j. j_id j = i) (map jobFrame (jobs s))"
proof -
  have "(\<lambda>j. j_id j = i) \<circ> jobFrame = (\<lambda>j. j_id j = i)"
    by (rule ext) (simp add: jobFrame_def)
  then show ?thesis by (simp add: getJob_def find_map_fun)
qed

lemma jobStatus_frame:
  assumes "map jobFrame (jobs s) = map jobFrame (jobs s')"
  shows "jobStatus i s = jobStatus i s'"
proof -
  have "map_option jobFrame (getJob i s) = map_option jobFrame (getJob i s')"
    using assms by (simp add: getJob_frame)
  then have "map_option j_status (map_option jobFrame (getJob i s)) =
             map_option j_status (map_option jobFrame (getJob i s'))"
    by simp
  moreover have "j_status \<circ> jobFrame = j_status" by (rule ext) (simp add: jobFrame_def)
  ultimately show ?thesis by (simp add: jobStatus_def option.map_comp)
qed

lemma getJob_found: "job \<in> set (jobs s) \<Longrightarrow> \<exists>j. getJob (j_id job) s = Some j"
proof -
  assume "job \<in> set (jobs s)"
  then have "getJob (j_id job) s \<noteq> None"
    by (auto simp add: getJob_def find_None_iff)
  then show ?thesis by auto
qed

lemma getJob_distinct:
  assumes "distinct (map j_id (jobs s))" and "job \<in> set (jobs s)"
  shows "getJob (j_id job) s = Some job"
proof -
  obtain j where j: "getJob (j_id job) s = Some j" using getJob_found[OF assms(2)] by auto
  then have "j \<in> set (jobs s)" and "j_id j = j_id job"
    by (auto simp add: getJob_def find_Some_iff)
  with assms have "j = job"
    by (meson distinct_map inj_on_eq_iff)
  with j show ?thesis by simp
qed

lemma jobStatus_claimJob:
  "job \<in> set (jobs s) \<Longrightarrow> jobStatus (j_id job) (claimJob (j_id job) s) = Some Running"
  using getJob_found[of job s] by (auto simp add: jobStatus_def getJob_def find_map_upd)

lemma jobStatus_running:
  assumes "job \<in> set (jobs s)"
  shows "jobStatus (j_id job) (finalStore (runJob e job (claimJob (j_id job) s))) = Some Running"
  using jobStatus_frame[OF runJob_jobs(1), of "j_id job" e job "claimJob (j_id job) s"]
    jobStatus_claimJob[OF assms] by simp

lemma jobStatus_Inr:
  assumes "findFirstQueued s = Some job" and "runJob e job (claimJob (j_id job) s) = Inr s2"
  shows "jobStatus (j_id job) (processNextJob e s) = Some Succeeded"
proof -
  have "jobStatus (j_id job) s2 = Some Running"
    using jobStatus_running[OF findFirstQueued_Some(1)[OF assms(1)], of e] assms(2) by simp
  then show ?thesis
    by (auto simp add: processNextJob_Inr[OF assms] jobStatus_def getJob_def find_map_upd)
qed

lemma jobStatus_Inl:
  assumes "findFirstQueued s = Some job" and "runJob e job (claimJob (j_id job) s) = Inl (err, s2)"
  shows "jobStatus (j_id job) (processNextJob e s) = Some Failed"
proof -
  have "jobStatus (j_id job) s2 = Some Running"
    using jobStatus_running[OF findFirstQueued_Some(1)[OF assms(1)], of e] assms(2) by simp
  then show ?thesis
    by (auto simp add: processNextJob_Inl[OF assms] jobStatus_def getJob_def find_map_upd)
qed

lemma runJob_result:
  obtains (thrown) err s2 where "runJob e job s = Inl (err, s2)"
    | (returned) s2 where "runJob e job s = Inr s2"
proof (cases "runJob e job s")
  case (Inl a)
  then show ?thesis using thrown by (cases a) auto
next
  case (Inr b)
  then show ?thesis using returned by auto
qed






lemma updateProgress_jobs_eq:
  "jobs (updateProgress i p l s) =
     map (\<lambda>j. if j_id j = i
               then j\<lparr>j_progressPercent := p, j_currentStage := l, j_updatedAt := clock s\<rparr>
               else j) (jobs s)"
  by (simp add: updateProgress_def updateJob_def)

lemma rows_after_update:
  assumes "\<And>j. P (f j)"
  shows "\<forall>j\<in>set (map (\<lambda>j. if j_id j = i then f j else j) xs). j_id j = i \<longrightarrow> P j"
  by (induction xs) (simp_all add: assms)

lemma rows_after_update_of:
  assumes "\<forall>j\<in>set xs. j_id j = i \<longrightarrow> P (f j)"
  shows "\<forall>j\<in>set (map (\<lambda>j. if j_id j = i then f j else j) xs). j_id j = i \<longrightarrow> P j"
  using assms by (induction xs) simp_all

lemma updateProgress_rows:
  "\<forall>j\<in>set (jobs (updateProgress i p l s)). j_id j = i \<longrightarrow>
     j_progressPercent j = p \<and> j_currentStage j = l"
  unfolding updateProgress_jobs_eq by (rule rows_after_update) simp

lemma stage1_retry_jobs:
  assumes "isl (generateCourseSkeleton (createLLMProvider e) (length (calls s)) (skeletonArgs c))"
  shows "jobs (stage1Store (stage1 e i c s)) =
     jobs (updateProgress i 12 ''Stage 1: Retrying with repair''
            (updateProgress i 10 ''Stage 1: Generating course skeleton'' s))"
proof -
  obtain err where
    "generateCourseSkeleton (createLLMProvider e) (length (calls s)) (skeletonArgs c) = Inl err"
    using assms by (auto simp add: isl_def)
  then show ?thesis
    by (simp add: stage1_def stage1Store_def callSkeleton_def Let_def updateProgress_jobs_eq
        split: sum.splits)
qed

lemma stage1_Inl_rows:
  assumes "stage1 e i c s = Inl (err, s1)"
  shows "\<forall>j\<in>set (jobs s1). j_id j = i \<longrightarrow>
           last (progressLog s1) = (i, j_progressPercent j, j_currentStage j)"
proof -
  have eq: "stage1Store (stage1 e i c s) = s1" using assms by simp
  have "isl (stage1 e i c s)" using assms by simp
  then have first: "isl (generateCourseSkeleton (createLLMProvider e) (length (calls s)) (skeletonArgs c))"
    by (simp add: stage1_isl skeletonAvailable_def)
  have j: "jobs s1 = jobs (updateProgress i 12 ''Stage 1: Retrying with repair''
            (updateProgress i 10 ''Stage 1: Generating course skeleton'' s))"
    using stage1_retry_jobs[OF first, of i] unfolding eq .
  have l: "last (progressLog s1) = (i, 12, ''Stage 1: Retrying with repair'')"
    using stage1_progressLog[of e i c s] first unfolding eq by simp
  show ?thesis
  proof (intro ballI impI)
    fix j assume "j \<in> set (jobs s1)" and "j_id j = i"
    then have "j_progressPercent j = 12 \<and> j_currentStage j = ''Stage 1: Retrying with repair''"
      using updateProgress_rows[of i 12 "''Stage 1: Retrying with repair''"
          "updateProgress i 10 ''Stage 1: Generating course skeleton'' s"]
      unfolding j by blast
    then show "last (progressLog s1) = (i, j_progressPercent j, j_currentStage j)"
      unfolding l by simp
  qed
qed

lemma claimJob_rows:
  "\<forall>j\<in>set (jobs (claimJob i s)). j_id j = i \<longrightarrow>
     last (progressLog (claimJob i s)) = (i, j_progressPercent j, j_currentStage j)"
  unfolding claimJob_fields by (rule rows_after_update) simp

lemma runJob_Inl_rows:
  assumes "runJob e job (claimJob (j_id job) s) = Inl (err, s2)"
  shows "\<forall>j\<in>set (jobs s2). j_id j = j_id job \<longrightarrow>
           last (progressLog s2) = (j_id job, j_progressPercent j, j_currentStage j)"
proof -
  from assms have ex: "executeGenerateCourse e (j_id job) (claimJob (j_id job) s) = Inl (err, s2)"
    by (simp add: runJob_def split: if_splits)
  show ?thesis
  proof (cases rule: executeGenerateCourse_cases[of e "j_id job" "claimJob (j_id job) s"])
    case notFound
    with ex have "s2 = claimJob (j_id job) s" by simp
    then show ?thesis using claimJob_rows[of "j_id job" s] by simp
  next
    case (stage1Failed job' c err' s1)
    with ex have "stage1 e (j_id job) c (claimJob (j_id job) s) = Inl (err, s2)" by simp
    then show ?thesis by (rule stage1_Inl_rows)
  next
    case (completed job' c sk s1)
    with ex show ?thesis by simp
  qed
qed

lemma runJob_isl:
  assumes "j_type job = ''GENERATE_COURSE''"
    and "findJobWithCourse (j_id job) s1 = Some (job', Some c)"
  shows "isl (runJob e job s1) \<longleftrightarrow> \<not> skeletonAvailable e c (length (calls s1))"
proof -
  have "isl (runJob e job s1) = isl (stage1 e (j_id job) c s1)"
    using assms by (simp add: runJob_def executeGenerateCourse_def split: sum.splits prod.splits)
  then show ?thesis by (simp add: stage1_isl)
qed

lemma findJobWithCourse_claimed:
  assumes "distinct (map j_id (jobs s))" and "job \<in> set (jobs s)" and "jobCourse job s = Some c"
  shows "findJobWithCourse (j_id job) (claimJob (j_id job) s) =
     Some (job\<lparr>j_status := Running, j_currentStage := ''Starting'', j_progressPercent := 0\<rparr>, Some c)"
proof -
  have "find (\<lambda>j. j_id j = j_id job) (jobs s) = Some job"
    using getJob_distinct[OF assms(1,2)] by (simp add: getJob_def)
  then show ?thesis
    using assms(3)
    by (simp add: findJobWithCourse_def find_map_upd jobCourse_def split: option.splits)
qed

text \<open>The outcome of one round, for a course-generation job whose course exists.\<close>

lemma round_outcome:
  assumes "distinct (map j_id (jobs s))" and "findFirstQueued s = Some job"
    and "j_type job = ''GENERATE_COURSE''" and "jobCourse job s = Some c"
  shows "jobStatus (j_id job) (processNextJob e s) =
     Some (if skeletonAvailable e c (length (calls s)) then Succeeded else Failed)"
proof -
  have inset: "job \<in> set (jobs s)" using findFirstQueued_Some(1)[OF assms(2)] .
  have isl: "isl (runJob e job (claimJob (j_id job) s)) \<longleftrightarrow>
             \<not> skeletonAvailable e c (length (calls s))"
    using runJob_isl[OF assms(3) findJobWithCourse_claimed[OF assms(1) inset assms(4)], of e]
    by simp
  show ?thesis
  proof (cases rule: runJob_result[of e job "claimJob (j_id job) s"])
    case (thrown err s2)
    with isl jobStatus_Inl[OF assms(2) thrown] show ?thesis by simp
  next
    case (returned s2)
    with isl jobStatus_Inr[OF assms(2) returned] show ?thesis by simp
  qed
qed

lemma jobStatus_Failed_thrown:
  assumes "findFirstQueued s = Some job"
    and "jobStatus (j_id job) (processNextJob e s) = Some Failed"
  obtains err s2 where "runJob e job (claimJob (j_id job) s) = Inl (err, s2)"
proof (cases rule: runJob_result[of e job "claimJob (j_id job) s"])
  case (thrown err s2)
  then show ?thesis using that by simp
next
  case (returned s2)
  with jobStatus_Inr[OF assms(1) returned] assms(2) show ?thesis by simp
qed

lemma demo_queued: "findFirstQueued demoStore = Some queuedJob"
  by (simp add: findFirstQueued_def demoStore_def failedJob_def queuedJob_def)

lemma demo_distinct: "distinct (map j_id (jobs demoStore))"
  by (simp add: demoStore_def failedJob_def queuedJob_def)

lemma demo_course: "jobCourse queuedJob demoStore = Some demoCourse"
  by (simp add: jobCourse_def demoStore_def queuedJob_def demoCourse_def)

lemma demo_type: "j_type queuedJob = ''GENERATE_COURSE''"
  by (simp add: queuedJob_def)

lemma keyed_not_available: "\<not> skeletonAvailable keyedEnv c t"
  by (simp add: skeletonAvailable_def keyedEnv_def demoEnv_def createLLMProvider_def downLLM_def)

lemma demo_available: "skeletonAvailable demoEnv c t"
  by (simp add: skeletonAvailable_def demoEnv_def createLLMProvider_def skeletonOnlyLLM_def)

section \<open>The job state machine\<close>




section \<open>What the failure write leaves alone\<close>

text \<open>
  Claim C10. When the job a round picked ends failed, the pipeline threw; the job
  table after the round is the table at the throw with only status, errorCode,
  errorMessage and updatedAt of that job's row rewritten; no progress write is added;
  and the row still shows the percent and stage label of the last progress write.
\<close>

theorem failed_write_keeps_progress:
  assumes "findFirstQueued s = Some job"
    and "jobStatus (j_id job) (processNextJob e s) = Some Failed"
  shows "\<exists>err s2. runJob e job (claimJob (j_id job) s) = Inl (err, s2) \<and>
     jobs (processNextJob e s) =
       map (\<lambda>j. if j_id j = j_id job
                 then j\<lparr>j_status := Failed,
                        j_errorCode := Some (orElse (err_code err) JOB_RUNNER_FAILURE),
                        j_errorMessage := Some (orElse (err_message err) ''Unknown error''),
                        j_updatedAt := clock s2\<rparr>
                 else j) (jobs s2) \<and>
     progressLog (processNextJob e s) = progressLog s2 \<and>
     (\<forall>j\<in>set (jobs (processNextJob e s)). j_id j = j_id job \<longrightarrow>
        j_status j = Failed \<and>
        last (progressLog s2) = (j_id job, j_progressPercent j, j_currentStage j))"
proof -
  obtain err s2 where thrown: "runJob e job (claimJob (j_id job) s) = Inl (err, s2)"
    using jobStatus_Failed_thrown[OF assms] by blast
  have rows: "\<forall>j\<in>set (jobs s2). j_id j = j_id job \<longrightarrow>
           last (progressLog s2) = (j_id job, j_progressPercent j, j_currentStage j)"
    using runJob_Inl_rows[OF thrown] .
  have "jobs (processNextJob e s) =
       map (\<lambda>j. if j_id j = j_id job
                 then j\<lparr>j_status := Failed,
                        j_errorCode := Some (orElse (err_code err) JOB_RUNNER_FAILURE),
                        j_errorMessage := Some (orElse (err_message err) ''Unknown error''),
                        j_updatedAt := clock s2\<rparr>
                 else j) (jobs s2)"
    by (simp add: processNextJob_Inl[OF assms(1) thrown])
  moreover have "progressLog (processNextJob e s) = progressLog s2"
    by (simp add: processNextJob_Inl[OF assms(1) thrown])
  moreover have "\<forall>j\<in>set (jobs (processNextJob e s)). j_id j = j_id job \<longrightarrow>
        j_status j = Failed \<and>
        last (progressLog s2) = (j_id job, j_progressPercent j, j_currentStage j)"
    unfolding processNextJob_Inl[OF assms(1) thrown] logEvent_fields markFailed_fields
    by (rule rows_after_update_of) (use rows in simp)
  ultimately show ?thesis using thrown by (intro exI[of _ err] exI[of _ s2] conjI)
qed

theorem failed_write_keeps_progress_witness:
  "findFirstQueued demoStore = Some queuedJob \<and>
   jobStatus (j_id queuedJob) (processNextJob keyedEnv demoStore) = Some Failed \<and>
   (\<exists>err s2. runJob keyedEnv queuedJob (claimJob (j_id queuedJob) demoStore) = Inl (err, s2) \<and>
     jobs (processNextJob keyedEnv demoStore) =
       map (\<lambda>j. if j_id j = j_id queuedJob
                 then j\<lparr>j_status := Failed,
                        j_errorCode := Some (orElse (err_code err) JOB_RUNNER_FAILURE),
                        j_errorMessage := Some (orElse (err_message err) ''Unknown error''),
                        j_updatedAt := clock s2\<rparr>
                 else j) (jobs s2) \<and>
     progressLog (processNextJob keyedEnv demoStore) = progressLog s2 \<and>
     (\<forall>j\<in>set (jobs (processNextJob keyedEnv demoStore)). j_id j = j_id queuedJob \<longrightarrow>
        j_status j = Failed \<and>
        last (progressLog s2) = (j_id queuedJob, j_progressPercent j, j_currentStage j)))"
proof -
  have f: "jobStatus (j_id queuedJob) (processNextJob keyedEnv demoStore) = Some Failed"
    using round_outcome[OF demo_distinct demo_queued demo_type demo_course, of keyedEnv]
    by (simp add: keyed_not_available)
  show ?thesis
    by (intro conjI) (rule demo_queued f failed_write_keeps_progress[OF demo_queued f])+
qed

section \<open>Progress writes\<close>

lemma loopProgress_job: "\<forall>w\<in>set (loopProgress j b wd lbl n k ms). fst w = j"
  by (induction ms arbitrary: k) simp_all

lemma loopProgress_values:
  "map (\<lambda>w. fst (snd w)) (loopProgress j b wd lbl n k ms) =
     map (\<lambda>q. b + ((int q + 1) * wd) div int n) [k..<k + length ms]"
proof (induction ms arbitrary: k)
  case Nil
  then show ?case by simp
next
  case (Cons m ms)
  have "k < k + length (m # ms)" by simp
  then have "[k..<k + length (m # ms)] = k # [Suc k..<k + length (m # ms)]"
    by (rule upt_conv_Cons)
  then have "[k..<k + length (m # ms)] = k # [Suc k..<Suc k + length ms]"
    by simp
  then show ?case using Cons.IH[of "Suc k"] by (simp del: upt_Suc)
qed

lemma step_bounds:
  fixes wd :: int
  assumes "0 \<le> wd" and "Suc q \<le> n"
  shows "0 \<le> ((int q + 1) * wd) div int n" and "((int q + 1) * wd) div int n \<le> wd"
proof -
  have n: "0 < int n" using assms(2) by simp
  show "0 \<le> ((int q + 1) * wd) div int n"
    using assms(1) n by (simp add: pos_imp_zdiv_nonneg_iff)
  have "(int q + 1) * wd \<le> int n * wd"
    using assms by (intro mult_right_mono) simp_all
  then have "((int q + 1) * wd) div int n \<le> (int n * wd) div int n"
    using n by (intro zdiv_mono1) simp_all
  then show "((int q + 1) * wd) div int n \<le> wd" using n by simp
qed

lemma step_mono:
  fixes wd :: int
  assumes "0 \<le> wd" and "q \<le> q'" and "0 < n"
  shows "((int q + 1) * wd) div int n \<le> ((int q' + 1) * wd) div int n"
proof -
  have "(int q + 1) * wd \<le> (int q' + 1) * wd"
    using assms by (intro mult_right_mono) simp_all
  then show ?thesis using assms(3) by (intro zdiv_mono1) simp_all
qed

lemma interpolated_bounds:
  assumes "0 \<le> wd" and "x \<in> set (map (\<lambda>q. b + ((int q + 1) * wd) div int n) [k..<k + m])"
    and "k + m \<le> n"
  shows "b \<le> x \<and> x \<le> b + wd"
proof -
  from assms(2) obtain q where q: "k \<le> q" "q < k + m" and x: "x = b + ((int q + 1) * wd) div int n"
    by auto
  have "Suc q \<le> n" using q assms(3) by simp
  from step_bounds[OF assms(1) this] x show ?thesis by simp
qed

lemma interpolated_sorted:
  assumes "0 \<le> wd" and "k + m \<le> n"
  shows "sorted (map (\<lambda>q. b + ((int q + 1) * wd) div int n) [k..<k + m])"
proof (cases "m = 0")
  case True
  then show ?thesis by simp
next
  case False
  then have n: "0 < n" using assms(2) by simp
  have "mono_on (set [k..<k + m]) (\<lambda>q. b + ((int q + 1) * wd) div int n)"
    using step_mono[OF assms(1) _ n] by (intro mono_onI) simp
  then show ?thesis
    by (intro sorted_map_mono) simp_all
qed



lemma label_stages [simp]:
  "stageOfLabel (lessonsLabel m) = Some 2"
  "stageOfLabel (quizLabel m) = Some 3"
  "stageOfLabel (resourcesLabel m) = Some 4"
  by (simp_all add: stageOfLabel_def lessonsLabel_def quizLabel_def resourcesLabel_def)

lemma literal_stages [simp]:
  "stageOfLabel ''Stage 1: Generating course skeleton'' = Some 1"
  "stageOfLabel ''Stage 1: Retrying with repair'' = Some 1"
  "stageOfLabel ''Stage 1: Complete'' = Some 1"
  "stageOfLabel ''Stage 2: Generating lessons'' = Some 2"
  "stageOfLabel ''Stage 2: Complete'' = Some 2"
  "stageOfLabel ''Stage 3: Generating quizzes'' = Some 3"
  "stageOfLabel ''Stage 3: Complete'' = Some 3"
  "stageOfLabel ''Stage 4: Finding video resources'' = Some 4"
  "stageOfLabel ''Stage 4: Complete'' = Some 4"
  "stageOfLabel ''Stage 5: Finalizing'' = Some 5"
  "stageOfLabel ''Stage 5: Complete'' = Some 5"
  by (simp_all add: stageOfLabel_def)

lemma loop_values_0:
  "map (\<lambda>w. fst (snd w)) (loopProgress j b wd lbl (length ms) 0 ms) = interpolated b wd (length ms)"
  using loopProgress_values[of j b wd lbl "length ms" 0 ms] by (simp add: interpolated_def)

lemma interpolated_range:
  assumes "0 \<le> wd"
  shows "\<forall>x\<in>set (interpolated b wd n). b \<le> x \<and> x \<le> b + wd"
  using interpolated_bounds[OF assms, of _ b n 0 n] by (simp add: interpolated_def)

lemma interpolated_is_sorted: "0 \<le> wd \<Longrightarrow> sorted (interpolated b wd n)"
  using interpolated_sorted[of wd 0 n n b] by (simp add: interpolated_def)

lemma laterWrites_values:
  "map (\<lambda>w. fst (snd w)) (laterWrites i ms) =
     20 # 25 # interpolated 25 15 (length ms) @ 40 # 45 # interpolated 45 25 (length ms)
       @ 70 # 75 # interpolated 75 20 (length ms) @ [95, 98, 100]"
  by (simp add: laterWrites_def loop_values_0)

lemma laterWrites_sorted:
  shows "sorted (map (\<lambda>w. fst (snd w)) (laterWrites i ms))"
    and "\<forall>x\<in>set (map (\<lambda>w. fst (snd w)) (laterWrites i ms)). 20 \<le> x \<and> x \<le> 100"
proof -
  let ?n = "length ms"
  have r2: "\<forall>x\<in>set (interpolated 25 15 ?n). 25 \<le> x \<and> x \<le> 40"
    using interpolated_range[of 15 25 ?n] by simp
  have r3: "\<forall>x\<in>set (interpolated 45 25 ?n). 45 \<le> x \<and> x \<le> 70"
    using interpolated_range[of 25 45 ?n] by simp
  have r4: "\<forall>x\<in>set (interpolated 75 20 ?n). 75 \<le> x \<and> x \<le> 95"
    using interpolated_range[of 20 75 ?n] by simp
  have s2: "sorted (interpolated 25 15 ?n)" by (simp add: interpolated_is_sorted)
  have s3: "sorted (interpolated 45 25 ?n)" by (simp add: interpolated_is_sorted)
  have s4: "sorted (interpolated 75 20 ?n)" by (simp add: interpolated_is_sorted)
  show "sorted (map (\<lambda>w. fst (snd w)) (laterWrites i ms))"
    unfolding laterWrites_values using r2 r3 r4 s2 s3 s4
    by (fastforce simp add: sorted_append)
  show "\<forall>x\<in>set (map (\<lambda>w. fst (snd w)) (laterWrites i ms)). 20 \<le> x \<and> x \<le> 100"
    unfolding laterWrites_values using r2 r3 r4 by fastforce
qed

lemma laterWrites_job: "\<forall>w\<in>set (laterWrites i ms). fst w = i"
  using loopProgress_job[of i 25 15 lessonsLabel "length ms" 0 ms]
    loopProgress_job[of i 45 25 quizLabel "length ms" 0 ms]
    loopProgress_job[of i 75 20 resourcesLabel "length ms" 0 ms]
  by (auto simp add: laterWrites_def)



lemma stage1Writes_facts:
  "\<forall>w\<in>set (stage1Writes i r). fst w = i"
  "list_all inStageRange (stage1Writes i r)"
  "map (\<lambda>w. fst (snd w)) (stage1Writes i r) = 10 # (if r then [12] else [])"
  "stageWrites 1 (stage1Writes i r) = 10 # (if r then [12] else [])"
  "stageWrites 2 (stage1Writes i r) = []"
  "stageWrites 3 (stage1Writes i r) = []"
  "stageWrites 4 (stage1Writes i r) = []"
  "stageWrites 5 (stage1Writes i r) = []"
  by (simp_all add: stage1Writes_def stageWrites_def inStageRange_def stageRange_def)

lemma afterSkeleton_progressLog:
  "progressLog (afterSkeleton e i c sk s1) = progressLog s1 @ laterWrites i (pipelineModules c sk s1)"
  by (simp add: afterSkeleton_unfold laterWrites_def)

lemma afterSkeleton_modules:
  "modules (afterSkeleton e i c sk s1) = modules s1 @ newModuleRows c sk s1"
  by (simp add: afterSkeleton_unfold)

lemma pipelineModules_length:
  "length (pipelineModules c sk s1) = length (modulesOf (c_id c) (afterSkeleton e i c sk s1))"
  by (simp add: pipelineModules_def modulesOf_def afterSkeleton_modules)

lemma stage1_result_progressLog:
  assumes "stage1 e i c s = Inl (err, s1) \<or> stage1 e i c s = Inr (sk, s1)"
  shows "progressLog s1 = progressLog s @ stage1Writes i
     (isl (generateCourseSkeleton (createLLMProvider e) (length (calls s)) (skeletonArgs c)))"
proof -
  have eq: "stage1Store (stage1 e i c s) = s1" using assms by auto
  show ?thesis using stage1_progressLog[of e i c s] unfolding eq by (simp add: stage1Writes_def)
qed

lemma executeGenerateCourse_progressLog:
  assumes "findJobWithCourse i s = Some (job, Some c)"
  shows "\<exists>ms. progressLog (finalStore (executeGenerateCourse e i s)) =
       progressLog s @ stage1Writes i
         (isl (generateCourseSkeleton (createLLMProvider e) (length (calls s)) (skeletonArgs c)))
       @ (if skeletonAvailable e c (length (calls s)) then laterWrites i ms else []) \<and>
     length ms = length (modulesOf (c_id c) (finalStore (executeGenerateCourse e i s)))"
proof (cases rule: executeGenerateCourse_cases[of e i s])
  case notFound
  then show ?thesis using assms by simp
next
  case (stage1Failed job' c' err s1)
  then have c: "c' = c" using assms by simp
  have "isl (stage1 e i c s)" using stage1Failed c by simp
  then have na: "\<not> skeletonAvailable e c (length (calls s))" by (simp add: stage1_isl)
  have "progressLog s1 = progressLog s @ stage1Writes i
     (isl (generateCourseSkeleton (createLLMProvider e) (length (calls s)) (skeletonArgs c)))"
    using stage1_result_progressLog[where e=e and i=i and c=c and s=s and err=err and ?s1.0=s1]
      stage1Failed c by simp
  then show ?thesis
    using stage1Failed na
    by (intro exI[of _ "modulesOf (c_id c) s1"]) simp
next
  case (completed job' c' sk s1)
  then have c: "c' = c" using assms by simp
  have "\<not> isl (stage1 e i c s)" using completed c by simp
  then have av: "skeletonAvailable e c (length (calls s))" by (simp add: stage1_isl)
  have "progressLog s1 = progressLog s @ stage1Writes i
     (isl (generateCourseSkeleton (createLLMProvider e) (length (calls s)) (skeletonArgs c)))"
    using stage1_result_progressLog[where e=e and i=i and c=c and s=s and sk=sk and ?s1.0=s1]
      completed c by simp
  then show ?thesis
    using completed av c
    by (intro exI[of _ "pipelineModules c sk s1"])
       (simp add: afterSkeleton_progressLog pipelineModules_length[of c sk s1 e i])
qed



text \<open>Every progress write of a pipeline run is for its job, and the percents
  written are sorted and lie between 10 and 100.\<close>

lemma executeGenerateCourse_progress_sorted:
  "\<exists>ws. progressLog (finalStore (executeGenerateCourse e i s)) = progressLog s @ ws \<and>
     (\<forall>w\<in>set ws. fst w = i) \<and> sorted (map (\<lambda>w. fst (snd w)) ws) \<and>
     (\<forall>x\<in>set (map (\<lambda>w. fst (snd w)) ws). 10 \<le> x \<and> x \<le> 100)"
proof (cases "\<exists>job c. findJobWithCourse i s = Some (job, Some c)")
  case False
  have "executeGenerateCourse e i s = Inl (newError ''Job or course not found'', s)"
    using False by (cases rule: executeGenerateCourse_cases[of e i s]) auto
  then show ?thesis by (intro exI[of _ "[]"]) simp
next
  case True
  then obtain job c where found: "findJobWithCourse i s = Some (job, Some c)" by blast
  from executeGenerateCourse_progressLog[OF found, of e] obtain ms where
    pl: "progressLog (finalStore (executeGenerateCourse e i s)) =
       progressLog s @ stage1Writes i
         (isl (generateCourseSkeleton (createLLMProvider e) (length (calls s)) (skeletonArgs c)))
       @ (if skeletonAvailable e c (length (calls s)) then laterWrites i ms else [])"
    by blast
  let ?r = "isl (generateCourseSkeleton (createLLMProvider e) (length (calls s)) (skeletonArgs c))"
  let ?l = "if skeletonAvailable e c (length (calls s)) then laterWrites i ms else []"
  have j: "\<forall>w\<in>set (stage1Writes i ?r @ ?l). fst w = i"
    using stage1Writes_facts(1)[of i ?r] laterWrites_job[of i ms] by auto
  have v1: "map (\<lambda>w. fst (snd w)) (stage1Writes i ?r) = 10 # (if ?r then [12] else [])"
    by (rule stage1Writes_facts(3))
  have sl: "sorted (map (\<lambda>w. fst (snd w)) ?l)"
    using laterWrites_sorted(1)[of i ms] by simp
  have bl: "\<forall>x\<in>set (map (\<lambda>w. fst (snd w)) ?l). 20 \<le> x \<and> x \<le> 100"
    using laterWrites_sorted(2)[of i ms] by simp
  have srt: "sorted (map (\<lambda>w. fst (snd w)) (stage1Writes i ?r @ ?l))"
    unfolding map_append v1 using sl bl by (fastforce simp add: sorted_append)
  have bnd: "\<forall>x\<in>set (map (\<lambda>w. fst (snd w)) (stage1Writes i ?r @ ?l)). 10 \<le> x \<and> x \<le> 100"
    unfolding map_append v1 using bl by fastforce
  show ?thesis
    using pl j srt bnd by (intro exI[of _ "stage1Writes i ?r @ ?l"] conjI) simp_all
qed

lemma runJob_progress_sorted:
  "\<exists>ws. progressLog (finalStore (runJob e job s)) = progressLog s @ ws \<and>
     (\<forall>w\<in>set ws. fst w = j_id job) \<and> sorted (map (\<lambda>w. fst (snd w)) ws) \<and>
     (\<forall>x\<in>set (map (\<lambda>w. fst (snd w)) ws). 10 \<le> x \<and> x \<le> 100)"
proof (cases "j_type job = ''GENERATE_COURSE''")
  case True
  then show ?thesis
    using executeGenerateCourse_progress_sorted[of e "j_id job" s] by (simp add: runJob_def)
next
  case False
  then show ?thesis by (intro exI[of _ "[]"]) (simp add: runJob_def)
qed

section \<open>The progress mapping of the pipeline\<close>




section \<open>Progress never goes down\<close>

text \<open>
  Claim C4. In the round that processes a job, the progress writes (all for that job,
  the first being the 0 of the claim) are non-decreasing in percent; and when the job
  ends succeeded, the last write is 100 and the job's row holds 100.
\<close>

theorem progress_never_decreases:
  assumes "findFirstQueued s = Some job"
  shows "\<exists>ws. progressLog (processNextJob e s) = progressLog s @ ws \<and>
     (\<forall>w\<in>set ws. fst w = j_id job) \<and>
     fst (snd (hd ws)) = 0 \<and>
     sorted (map (\<lambda>w. fst (snd w)) ws) \<and>
     (jobStatus (j_id job) (processNextJob e s) = Some Succeeded \<longrightarrow>
        fst (snd (last ws)) = 100 \<and>
        (\<forall>j\<in>set (jobs (processNextJob e s)). j_id j = j_id job \<longrightarrow> j_progressPercent j = 100))"
proof -
  let ?i = "j_id job"
  let ?s1 = "claimJob ?i s"
  from runJob_progress_sorted[of e job ?s1] obtain ws where
    pl: "progressLog (finalStore (runJob e job ?s1)) = progressLog ?s1 @ ws"
    and own: "\<forall>w\<in>set ws. fst w = ?i"
    and srt: "sorted (map (\<lambda>w. fst (snd w)) ws)"
    and bnd: "\<forall>x\<in>set (map (\<lambda>w. fst (snd w)) ws). 10 \<le> x \<and> x \<le> 100"
    by blast
  show ?thesis
  proof (cases rule: runJob_result[of e job ?s1])
    case (thrown err s2)
    have log: "progressLog (processNextJob e s) = progressLog s @ (?i, 0, ''Starting'') # ws"
      using pl thrown by (simp add: processNextJob_Inl[OF assms thrown])
    have s0: "sorted (map (\<lambda>w. fst (snd w)) ((?i, 0, ''Starting'') # ws))"
      using srt bnd by fastforce
    have nf: "jobStatus ?i (processNextJob e s) \<noteq> Some Succeeded"
      using jobStatus_Inl[OF assms thrown] by simp
    show ?thesis
      using log own s0 nf by (intro exI[of _ "(?i, 0, ''Starting'') # ws"]) simp
  next
    case (returned s2)
    have log: "progressLog (processNextJob e s) =
        progressLog s @ ((?i, 0, ''Starting'') # ws) @ [(?i, 100, ''Completed'')]"
      using pl returned by (simp add: processNextJob_Inr[OF assms returned])
    have s0: "sorted (map (\<lambda>w. fst (snd w)) (((?i, 0, ''Starting'') # ws) @ [(?i, 100, ''Completed'')]))"
      using srt bnd by (fastforce simp add: sorted_append)
    have rows: "\<forall>j\<in>set (jobs (processNextJob e s)). j_id j = ?i \<longrightarrow> j_progressPercent j = 100"
      unfolding processNextJob_Inr[OF assms returned] logEvent_fields markSucceeded_fields
      by (rule rows_after_update) simp
    show ?thesis
      using log own s0 rows
      by (intro exI[of _ "((?i, 0, ''Starting'') # ws) @ [(?i, 100, ''Completed'')]"]) simp
  qed
qed

theorem progress_never_decreases_witness:
  "findFirstQueued demoStore = Some queuedJob \<and>
   jobStatus (j_id queuedJob) (processNextJob demoEnv demoStore) = Some Succeeded \<and>
   (\<exists>ws. progressLog (processNextJob demoEnv demoStore) = progressLog demoStore @ ws \<and>
     (\<forall>w\<in>set ws. fst w = j_id queuedJob) \<and>
     fst (snd (hd ws)) = 0 \<and>
     sorted (map (\<lambda>w. fst (snd w)) ws) \<and>
     fst (snd (last ws)) = 100 \<and>
     (\<forall>j\<in>set (jobs (processNextJob demoEnv demoStore)).
        j_id j = j_id queuedJob \<longrightarrow> j_progressPercent j = 100))"
proof -
  have ok: "jobStatus (j_id queuedJob) (processNextJob demoEnv demoStore) = Some Succeeded"
    using round_outcome[OF demo_distinct demo_queued demo_type demo_course, of demoEnv]
    by (simp add: demo_available)
  from progress_never_decreases[OF demo_queued, of demoEnv] obtain ws where
    a: "progressLog (processNextJob demoEnv demoStore) = progressLog demoStore @ ws"
    and b: "\<forall>w\<in>set ws. fst w = j_id queuedJob"
    and c: "fst (snd (hd ws)) = 0"
    and d: "sorted (map (\<lambda>w. fst (snd w)) ws)"
    and e: "jobStatus (j_id queuedJob) (processNextJob demoEnv demoStore) = Some Succeeded \<longrightarrow>
        fst (snd (last ws)) = 100 \<and>
        (\<forall>j\<in>set (jobs (processNextJob demoEnv demoStore)).
           j_id j = j_id queuedJob \<longrightarrow> j_progressPercent j = 100)"
    by blast
  from e ok have f: "fst (snd (last ws)) = 100"
    and g: "\<forall>j\<in>set (jobs (processNextJob demoEnv demoStore)).
        j_id j = j_id queuedJob \<longrightarrow> j_progressPercent j = 100"
    by blast+
  show ?thesis
    using a b c d f g by (intro conjI exI[of _ ws]) (rule demo_queued ok | assumption)+
qed

section \<open>Which rows belong to which module\<close>



lemma questionRowsOf_quiz: "\<forall>q\<in>set (questionRowsOf p c t nid m). qq_quizId q = nid"
  by (auto simp add: questionRowsOf_def questionRow_def fallbackQuestionRow_def split: sum.splits)

lemma quizRowOf_fields [simp]:
  "q_id (quizRowOf p c t nid m) = nid" "q_moduleId (quizRowOf p c t nid m) = m_id m"
  by (simp_all add: quizRowOf_def)












lemma questionRowsFrom_ids:
  "\<forall>q\<in>set (questionRowsFrom p c t nid ms). nid \<le> qq_quizId q"
proof (induction ms arbitrary: t nid)
  case Nil
  then show ?case by simp
next
  case (Cons a ms)
  have "\<forall>q\<in>set (questionRowsFrom p c (Suc t) (Suc nid) ms). nid \<le> qq_quizId q"
    using Cons.IH[where t="Suc t" and nid="Suc nid"] by auto
  then show ?case using questionRowsOf_quiz[of p c t nid a] by auto
qed

lemma quizRowsFrom_ids:
  "\<forall>q\<in>set (quizRowsFrom p c t nid ms). nid \<le> q_id q \<and> q_moduleId q \<in> m_id ` set ms"
proof (induction ms arbitrary: t nid)
  case Nil
  then show ?case by simp
next
  case (Cons a ms)
  have "\<forall>q\<in>set (quizRowsFrom p c (Suc t) (Suc nid) ms). nid \<le> q_id q \<and> q_moduleId q \<in> m_id ` set ms"
    using Cons.IH[where t="Suc t" and nid="Suc nid"] by auto
  then show ?case by auto
qed


section \<open>The course tree after the pipeline\<close>











section \<open>What the provider contracts give\<close>





section \<open>The shape of a generated course\<close>





lemma demo_llm: "createLLMProvider demoEnv = skeletonOnlyLLM"
  by (simp add: createLLMProvider_def demoEnv_def)







section \<open>Provider calls of a round\<close>





section \<open>Video resources\<close>





section \<open>Stage 4 failures\<close>





section \<open>Stage 2 failures\<close>





lemma demo_lessons_fail: "isl (generateLessons (createLLMProvider demoEnv) t a)"
  by (simp add: demo_llm skeletonOnlyLLM_def)


section \<open>Stage 1 when the configured provider stays down\<close>

lemma stage1_failed_trace:
  assumes "isl (stage1 e i c s)"
  shows "calls (stage1Store (stage1 e i c s)) =
       calls s @ [SkeletonCall (skeletonArgs c), SkeletonCall (skeletonArgs c),
                  SkeletonCall (skeletonArgs c)]"
    and "map ev_level (events (stage1Store (stage1 e i c s))) =
       map ev_level (events s) @ [Info, Warn, Warn]"
proof -
  let ?g = "generateCourseSkeleton (createLLMProvider e)"
  have "\<not> skeletonAvailable e c (length (calls s))" using assms by (simp add: stage1_isl)
  then obtain e1 e2 e3 where
    e1: "?g (length (calls s)) (skeletonArgs c) = Inl e1"
    and e2: "?g (Suc (length (calls s))) (skeletonArgs c) = Inl e2"
    and e3: "?g (Suc (Suc (length (calls s)))) (skeletonArgs c) = Inl e3"
    by (auto simp add: skeletonAvailable_def isl_def)
  show "calls (stage1Store (stage1 e i c s)) =
       calls s @ [SkeletonCall (skeletonArgs c), SkeletonCall (skeletonArgs c),
                  SkeletonCall (skeletonArgs c)]"
    using e1 e2 e3 by (simp add: stage1_def stage1Store_def callSkeleton_def Let_def)
  show "map ev_level (events (stage1Store (stage1 e i c s))) =
       map ev_level (events s) @ [Info, Warn, Warn]"
    using e1 e2 e3 by (simp add: stage1_def stage1Store_def callSkeleton_def Let_def)
qed

lemma failed_round_trace:
  assumes "distinct (map j_id (jobs s))" and "findFirstQueued s = Some job"
    and "j_type job = ''GENERATE_COURSE''" and "jobCourse job s = Some c"
    and "\<not> skeletonAvailable e c (length (calls s))"
  shows "calls (processNextJob e s) =
       calls s @ [SkeletonCall (skeletonArgs c), SkeletonCall (skeletonArgs c),
                  SkeletonCall (skeletonArgs c)]"
    and "map ev_level (events (processNextJob e s)) =
       map ev_level (events s) @ [Info, Warn, Warn, Error]"
proof -
  let ?i = "j_id job"
  let ?s0 = "claimJob ?i s"
  have inset: "job \<in> set (jobs s)" using findFirstQueued_Some(1)[OF assms(2)] .
  have found: "findJobWithCourse ?i ?s0 =
     Some (job\<lparr>j_status := Running, j_currentStage := ''Starting'', j_progressPercent := 0\<rparr>, Some c)"
    using findJobWithCourse_claimed[OF assms(1) inset assms(4)] .
  have failed: "isl (stage1 e ?i c ?s0)" using assms(5) by (simp add: stage1_isl)
  then obtain err s1 where st: "stage1 e ?i c ?s0 = Inl (err, s1)"
    by (cases "stage1 e ?i c ?s0") auto
  have s1: "s1 = stage1Store (stage1 e ?i c ?s0)" using st by simp
  have run: "runJob e job ?s0 = Inl (err, s1)"
    using assms(3) found st by (simp add: runJob_def executeGenerateCourse_def)
  note tr = stage1_failed_trace[OF failed]
  show "calls (processNextJob e s) =
       calls s @ [SkeletonCall (skeletonArgs c), SkeletonCall (skeletonArgs c),
                  SkeletonCall (skeletonArgs c)]"
    using tr(1) unfolding processNextJob_Inl[OF assms(2) run] s1 by simp
  show "map ev_level (events (processNextJob e s)) =
       map ev_level (events s) @ [Info, Warn, Warn, Error]"
    using tr(2) unfolding processNextJob_Inl[OF assms(2) run] s1 by simp
qed

text \<open>
  Claim C2 at a failing input. An OpenAI key is configured, the OpenAI provider
  fails every skeleton call, and the mock provider would return a valid skeleton.
  The runner makes three skeleton calls with the same arguments, all to the
  configured provider (the third through a second call of the factory, which selects
  by configuration again); it logs two warn events; and the job ends failed. The mock
  is never asked.
\<close>

theorem third_skeleton_attempt_is_not_the_mock:
  "hasOpenAIKey keyedEnv \<and>
   generateCourseSkeleton (mockLLMProvider keyedEnv) 2 (skeletonArgs demoCourse) = Inr demoSkeleton \<and>
   jobStatus (j_id queuedJob) (processNextJob keyedEnv demoStore) = Some Failed \<and>
   calls (processNextJob keyedEnv demoStore) =
     [SkeletonCall (skeletonArgs demoCourse), SkeletonCall (skeletonArgs demoCourse),
      SkeletonCall (skeletonArgs demoCourse)] \<and>
   map ev_level (events (processNextJob keyedEnv demoStore)) = [Info, Warn, Warn, Error]"
proof -
  have k: "hasOpenAIKey keyedEnv" by (simp add: keyedEnv_def)
  have m: "generateCourseSkeleton (mockLLMProvider keyedEnv) 2 (skeletonArgs demoCourse) = Inr demoSkeleton"
    by (simp add: keyedEnv_def demoEnv_def skeletonOnlyLLM_def)
  have f: "jobStatus (j_id queuedJob) (processNextJob keyedEnv demoStore) = Some Failed"
    using round_outcome[OF demo_distinct demo_queued demo_type demo_course, of keyedEnv]
    by (simp add: keyed_not_available)
  note tr = failed_round_trace[OF demo_distinct demo_queued demo_type demo_course keyed_not_available]
  have c: "calls (processNextJob keyedEnv demoStore) =
     [SkeletonCall (skeletonArgs demoCourse), SkeletonCall (skeletonArgs demoCourse),
      SkeletonCall (skeletonArgs demoCourse)]"
    using tr(1) by (simp add: demoStore_def)
  have e: "map ev_level (events (processNextJob keyedEnv demoStore)) = [Info, Warn, Warn, Error]"
    using tr(2) by (simp add: demoStore_def)
  show ?thesis by (intro conjI) (rule k m f c e)+
qed

section \<open>Idempotent submission\<close>

lemma submit_invalid: "\<not> GeneratePathRequestSchema r \<Longrightarrow> submit r st = (ValidationError, st)"
  by (simp add: submit_def)

lemma submit_existing:
  assumes "GeneratePathRequestSchema r" and "map_of (registry st) (rq_idempotencyKey r) = Some jid"
  shows "submit r st = (JobExists jid, st)"
  using assms by (simp add: submit_def reserve_def)

lemma submit_new:
  assumes "GeneratePathRequestSchema r" and "map_of (registry st) (rq_idempotencyKey r) = None"
  shows "fst (submit r st) = JobCreated (nextId (db st))"
    and "registry (snd (submit r st)) = registry st @ [(rq_idempotencyKey r, nextId (db st))]"
    and "jobs (db (snd (submit r st))) = jobs (db st) @
          [\<lparr>j_id = nextId (db st), j_type = ''GENERATE_COURSE'', j_status = Queued,
            j_progressPercent = 0, j_currentStage = [], j_errorCode = None,
            j_errorMessage = None, j_courseId = Some (Suc (nextId (db st))),
            j_createdAt = clock (db st), j_updatedAt = clock (db st)\<rparr>]"
    and "courses (db (snd (submit r st))) = courses (db st) @
          [\<lparr>c_id = Suc (nextId (db st)), c_topic = rq_topic r, c_level = rq_level r,
            c_timePerDay = rq_timePerDay r, c_status = ''draft''\<rparr>]"
    and "nextId (db (snd (submit r st))) = Suc (Suc (nextId (db st)))"
  using assms by (simp_all add: submit_def reserve_def createCourse_def createJob_def)

lemma submit_registers:
  assumes "GeneratePathRequestSchema r"
  shows "\<exists>jid. responseJobId (fst (submit r st)) = Some jid \<and>
     map_of (registry (snd (submit r st))) (rq_idempotencyKey r) = Some jid"
proof (cases "map_of (registry st) (rq_idempotencyKey r)")
  case None
  then show ?thesis using submit_new(1,2)[OF assms None] by (simp add: map_add_def)
next
  case (Some jid)
  then show ?thesis using submit_existing[OF assms Some] by simp
qed

lemma submit_keeps_mapping:
  assumes "map_of (registry st) key = Some jid"
  shows "map_of (registry (snd (submit r st))) key = Some jid"
proof (cases "GeneratePathRequestSchema r")
  case False
  then show ?thesis using assms by (simp add: submit_invalid)
next
  case True
  show ?thesis
  proof (cases "map_of (registry st) (rq_idempotencyKey r)")
    case None
    then show ?thesis using assms submit_new(2)[OF True None] by (simp add: map_add_def)
  next
    case (Some j)
    then show ?thesis using assms submit_existing[OF True Some] by simp
  qed
qed

lemma submitAll_keeps_mapping:
  "map_of (registry st) key = Some jid \<Longrightarrow> map_of (registry (submitAll rs st)) key = Some jid"
proof (induction rs arbitrary: st)
  case Nil
  then show ?case by (simp add: submitAll_def)
next
  case (Cons r rs)
  have "map_of (registry (submitAll rs (snd (submit r st)))) key = Some jid"
    using Cons.IH[OF submit_keeps_mapping[OF Cons.prems]] .
  then show ?case by (simp add: submitAll_def)
qed

lemma submit_wf:
  assumes "wfIntake st"
  shows "wfIntake (snd (submit r st))"
proof (cases "GeneratePathRequestSchema r")
  case False
  then show ?thesis using assms by (simp add: submit_invalid)
next
  case True
  show ?thesis
  proof (cases "map_of (registry st) (rq_idempotencyKey r)")
    case None
    have a: "\<forall>j\<in>set (jobs (db st)). j_id j < nextId (db st)"
      and b: "\<forall>c\<in>set (courses (db st)). c_id c < nextId (db st)"
      using assms by (simp_all add: wfIntake_def list_all_iff)
    have a': "nextId (db st) \<notin> j_id ` set (jobs (db st))" using a by auto
    have b': "Suc (nextId (db st)) \<notin> c_id ` set (courses (db st))" using b by auto
    show ?thesis
      using assms a b a' b'
      unfolding wfIntake_def submit_new(3,4,5)[OF True None] list_all_iff
      by (auto simp add: less_Suc_eq)
  next
    case (Some j)
    then show ?thesis using assms submit_existing[OF True Some] by simp
  qed
qed

lemma submitAll_wf: "wfIntake st \<Longrightarrow> wfIntake (submitAll rs st)"
proof (induction rs arbitrary: st)
  case Nil
  then show ?case by (simp add: submitAll_def)
next
  case (Cons r rs)
  have "wfIntake (submitAll rs (snd (submit r st)))" using Cons.IH[OF submit_wf[OF Cons.prems]] .
  then show ?case by (simp add: submitAll_def)
qed

lemma filter_key_le_one:
  "distinct (map f xs) \<Longrightarrow> length (filter (\<lambda>x. P x \<and> f x = a) xs) \<le> 1"
proof (induction xs)
  case Nil
  then show ?case by simp
next
  case (Cons x xs)
  show ?case
  proof (cases "f x = a")
    case True
    have "a \<notin> f ` set xs" using Cons.prems True by auto
    then have "filter (\<lambda>x. P x \<and> f x = a) xs = []" by (auto simp add: filter_empty_conv)
    then show ?thesis by simp
  next
    case False
    then show ?thesis using Cons by simp
  qed
qed

lemma wf_one_job:
  assumes "wfIntake st"
  shows "length (jobsForKey key st) \<le> 1"
proof (cases "map_of (registry st) key")
  case None
  then show ?thesis by (simp add: jobsForKey_def)
next
  case (Some jid)
  have d: "distinct (map j_id (jobs (db st)))" using assms by (simp add: wfIntake_def)
  have "jobsForKey key st = filter (\<lambda>j. True \<and> j_id j = jid) (jobs (db st))"
    using Some by (auto simp add: jobsForKey_def intro: filter_cong)
  then show ?thesis using filter_key_le_one[OF d, of "\<lambda>j. True" jid] by simp
qed

lemma wf_one_course:
  assumes "wfIntake st"
  shows "length (coursesForKey key st) \<le> 1"
proof -
  have d: "distinct (map c_id (courses (db st)))" using assms by (simp add: wfIntake_def)
  have "length (jobsForKey key st) \<le> 1" using wf_one_job[OF assms] .
  then consider "jobsForKey key st = []" | j where "jobsForKey key st = [j]"
    by (cases "jobsForKey key st") (auto simp add: length_Suc_conv)
  then show ?thesis
  proof cases
    case 1
    then show ?thesis by (simp add: coursesForKey_def)
  next
    case 2
    show ?thesis
    proof (cases "j_courseId j")
      case None
      then show ?thesis using 2 by (simp add: coursesForKey_def)
    next
      case (Some cid)
      have "coursesForKey key st = filter (\<lambda>c. True \<and> c_id c = cid) (courses (db st))"
        using 2 Some by (auto simp add: coursesForKey_def intro: filter_cong)
      then show ?thesis using filter_key_le_one[OF d, of "\<lambda>c. True" cid] by simp
    qed
  qed
qed

text \<open>
  Claim C8. Take two valid submissions with the same idempotency key, the second made
  after the first and after any run of other submissions. Both return the same job
  id, the second as an already existing job; the second creates nothing (the store
  and the registry are as before it); and after it the key resolves to at most one
  job and at most one course.
\<close>

theorem same_key_same_job:
  assumes "wfIntake st"
    and "GeneratePathRequestSchema r1" and "GeneratePathRequestSchema r2"
    and "rq_idempotencyKey r2 = rq_idempotencyKey r1"
  shows "\<exists>jid. responseJobId (fst (submit r1 st)) = Some jid \<and>
     submit r2 (submitAll between (snd (submit r1 st))) =
       (JobExists jid, submitAll between (snd (submit r1 st))) \<and>
     length (jobsForKey (rq_idempotencyKey r1)
        (snd (submit r2 (submitAll between (snd (submit r1 st)))))) \<le> 1 \<and>
     length (coursesForKey (rq_idempotencyKey r1)
        (snd (submit r2 (submitAll between (snd (submit r1 st)))))) \<le> 1"
proof -
  let ?st2 = "submitAll between (snd (submit r1 st))"
  from submit_registers[OF assms(2), of st] obtain jid where
    r: "responseJobId (fst (submit r1 st)) = Some jid"
    and m: "map_of (registry (snd (submit r1 st))) (rq_idempotencyKey r1) = Some jid"
    by blast
  have m2: "map_of (registry ?st2) (rq_idempotencyKey r2) = Some jid"
    using submitAll_keeps_mapping[OF m] assms(4) by simp
  have s: "submit r2 ?st2 = (JobExists jid, ?st2)" using submit_existing[OF assms(3) m2] .
  have wf: "wfIntake ?st2" using submitAll_wf[OF submit_wf[OF assms(1)]] .
  have j: "length (jobsForKey (rq_idempotencyKey r1) (snd (submit r2 ?st2))) \<le> 1"
    unfolding s using wf_one_job[OF wf] by simp
  have c: "length (coursesForKey (rq_idempotencyKey r1) (snd (submit r2 ?st2))) \<le> 1"
    unfolding s using wf_one_course[OF wf] by simp
  from r s j c show ?thesis by blast
qed

lemma demo_requests_valid:
  "GeneratePathRequestSchema firstRequest" "GeneratePathRequestSchema secondRequest"
  "GeneratePathRequestSchema otherRequest"
  by (simp_all add: GeneratePathRequestSchema_def firstRequest_def secondRequest_def
      otherRequest_def isUuid_def isHexDigit_def enumerate_eq_zip upt_rec)

lemma demoIntake_wf: "wfIntake demoIntake"
  by (simp add: wfIntake_def demoIntake_def demoStore_def failedJob_def queuedJob_def
      demoCourse_def)

lemma demo_first_response: "fst (submit firstRequest demoIntake) = JobCreated 4"
  using submit_new(1)[OF demo_requests_valid(1), of demoIntake]
  by (simp add: demoIntake_def demoStore_def)

theorem same_key_same_job_witness:
  "wfIntake demoIntake \<and> GeneratePathRequestSchema firstRequest \<and>
   GeneratePathRequestSchema secondRequest \<and>
   rq_idempotencyKey secondRequest = rq_idempotencyKey firstRequest \<and>
   rq_topic secondRequest \<noteq> rq_topic firstRequest \<and>
   fst (submit firstRequest demoIntake) = JobCreated 4 \<and>
   submit secondRequest (submitAll [otherRequest] (snd (submit firstRequest demoIntake))) =
     (JobExists 4, submitAll [otherRequest] (snd (submit firstRequest demoIntake))) \<and>
   length (jobsForKey (rq_idempotencyKey firstRequest)
      (snd (submit secondRequest
         (submitAll [otherRequest] (snd (submit firstRequest demoIntake)))))) \<le> 1 \<and>
   length (coursesForKey (rq_idempotencyKey firstRequest)
      (snd (submit secondRequest
         (submitAll [otherRequest] (snd (submit firstRequest demoIntake)))))) \<le> 1"
proof -
  have k: "rq_idempotencyKey secondRequest = rq_idempotencyKey firstRequest"
    by (simp add: secondRequest_def)
  have t: "rq_topic secondRequest \<noteq> rq_topic firstRequest"
    by (simp add: secondRequest_def firstRequest_def)
  from same_key_same_job[OF demoIntake_wf demo_requests_valid(1,2) k, of "[otherRequest]"]
  obtain jid where
    r: "responseJobId (fst (submit firstRequest demoIntake)) = Some jid"
    and s: "submit secondRequest (submitAll [otherRequest] (snd (submit firstRequest demoIntake))) =
       (JobExists jid, submitAll [otherRequest] (snd (submit firstRequest demoIntake)))"
    and j: "length (jobsForKey (rq_idempotencyKey firstRequest)
        (snd (submit secondRequest
           (submitAll [otherRequest] (snd (submit firstRequest demoIntake)))))) \<le> 1"
    and c: "length (coursesForKey (rq_idempotencyKey firstRequest)
        (snd (submit secondRequest
           (submitAll [otherRequest] (snd (submit firstRequest demoIntake)))))) \<le> 1"
    by blast
  have jid: "jid = 4" using r by (simp add: demo_first_response)
  show ?thesis
    by (intro conjI)
       (rule demoIntake_wf demo_requests_valid(1) demo_requests_valid(2) k t demo_first_response
          s[unfolded jid] j c)+
qed

end
